theory Spec2Isabelle
  imports Complex_Main
begin

section \<open>Laplace approximations: a shallow embedding of \<open>laplace/baselaplace.py\<close>\<close>

text \<open>
  Tensors of floating-point numbers are modelled over \<^typ>\<open>real\<close>: a one-dimensional
  tensor is a \<^typ>\<open>real list\<close>, a matrix is a list of rows.  A zero-dimensional tensor and
  a tensor with one element are both a singleton list.  Every \<open>raise\<close> of the source is
  a branch of the model; a method that mutates the object before it raises returns the
  mutated object together with the exception.
\<close>

subsection \<open>Exceptions and results\<close>

datatype error =
    ValueError string
  | AttributeError string
  | RuntimeError string
  | NotImplementedError
  | StopIteration
  | ZeroDivisionError
  | IndexError
  | TypeError
  | AssertionError

text \<open>The outcome of a method call on an object of type \<open>'s\<close>.\<close>

datatype ('a, 's) result = Return 'a 's | Raise error 's

definition is_Return :: "('a, 's) result \<Rightarrow> bool" where
  "is_Return r = (case r of Return _ _ \<Rightarrow> True | Raise _ _ \<Rightarrow> False)"

text \<open>The object as the call leaves it, whether it returns or raises.\<close>

definition state_of :: "('a, 's) result \<Rightarrow> 's" where
  "state_of r = (case r of Return _ s \<Rightarrow> s | Raise _ s \<Rightarrow> s)"

text \<open>What a caller may pass where the source accepts "a scalar or a tensor".\<close>

datatype py_value =
    PyFloat real            \<comment> \<open>\<open>np.isscalar(v) and np.isreal(v)\<close>\<close>
  | Tensor0 real            \<comment> \<open>a tensor with \<open>ndim == 0\<close>\<close>
  | Tensor1 "real list"     \<comment> \<open>a tensor with \<open>ndim == 1\<close>\<close>
  | TensorN "real list"     \<comment> \<open>a tensor with \<open>ndim >= 2\<close>, its elements flattened\<close>
  | PyOther                 \<comment> \<open>any other object\<close>

subsection \<open>\<open>BaseLaplace\<close>: the shared state\<close>

text \<open>
  \<open>model_params\<close> is \<open>list(self.model.parameters())\<close>, each parameter tensor
  flattened: the live parameters of the wrapped network.
\<close>

record base =
  model_params :: "real list list"
  likelihood :: string
  prior_precision :: "real list"
  prior_mean :: "real list"
  sigma_noise :: real
  temperature :: real
  loss :: real
  n_outputs :: "nat option"
  n_data :: "nat option"
  map_estimate :: "real list"
  posterior_scale :: "real list list option"

text \<open>\<open>torch.nn.utils.parameters_to_vector\<close>.\<close>

definition parameters_to_vector :: "real list list \<Rightarrow> real list" where
  "parameters_to_vector ps = concat ps"

text \<open>
  \<open>self.n_params\<close> and \<open>self.n_layers\<close> are computed once by \<open>__init__\<close> from the
  model, whose parameter shapes never change afterwards; the embedding reads them off the
  parameter list.
\<close>

definition n_params :: "'a base_scheme \<Rightarrow> nat" where
  "n_params s = length (parameters_to_vector (model_params s))"

definition n_layers :: "'a base_scheme \<Rightarrow> nat" where
  "n_layers s = length (model_params s)"

text \<open>
  Modelled from the spec: \<open>laplace.utils.parameters_per_layer\<close> is not among the sources;
  the spec has per-layer values "repeated over each layer's parameter count", so it is the
  list of the sizes of the parameter tensors.
\<close>

definition parameters_per_layer :: "'a base_scheme \<Rightarrow> nat list" where
  "parameters_per_layer s = map length (model_params s)"

subsection \<open>Prior precision\<close>

definition set_prior_precision :: "'a base_scheme \<Rightarrow> py_value \<Rightarrow> (unit, 'a base_scheme) result" where
  "set_prior_precision s0 v =
     (let s = s0\<lparr>posterior_scale := None\<rparr> in
      case v of
        PyFloat x \<Rightarrow> Return () (s\<lparr>prior_precision := [x]\<rparr>)
      | Tensor0 x \<Rightarrow> Return () (s\<lparr>prior_precision := [x]\<rparr>)
      | Tensor1 xs \<Rightarrow>
          if length xs \<notin> {1, n_layers s, n_params s}
          then Raise (ValueError ''Length of prior precision does not align with architecture.'') s
          else Return () (s\<lparr>prior_precision := xs\<rparr>)
      | TensorN xs \<Rightarrow>
          Raise (ValueError ''Prior precision needs to be at most one-dimensional tensor.'') s
      | PyOther \<Rightarrow>
          Raise (ValueError ''Prior precision either scalar or torch.Tensor up to 1-dim.'') s)"

definition prior_precision_diag :: "'a base_scheme \<Rightarrow> error + real list" where
  "prior_precision_diag s =
     (if length (prior_precision s) = 1
      then Inr (replicate (n_params s) (hd (prior_precision s)))
      else if length (prior_precision s) = n_params s
      then Inr (prior_precision s)
      else if length (prior_precision s) = n_layers s
      then Inr (concat (map (\<lambda>(prior, n). replicate n prior)
                  (zip (prior_precision s) (parameters_per_layer s))))
      else Inl (ValueError ''Mismatch of prior and model. Diagonal, scalar, or per-layer prior.''))"

text \<open>\<open>KronLaplace\<close> extends the setter: the base setter runs first, then the length check.\<close>

definition kron_set_prior_precision :: "'a base_scheme \<Rightarrow> py_value \<Rightarrow> (unit, 'a base_scheme) result" where
  "kron_set_prior_precision s0 v =
     (case set_prior_precision s0 v of
        Raise e s \<Rightarrow> Raise e s
      | Return u s \<Rightarrow>
          if length (prior_precision s) \<notin> {1, n_layers s}
          then Raise (ValueError ''Prior precision for Kron either scalar or per-layer.'') s
          else Return () s)"

subsection \<open>Prior mean and observation noise\<close>

definition set_prior_mean :: "'a base_scheme \<Rightarrow> py_value \<Rightarrow> (unit, 'a base_scheme) result" where
  "set_prior_mean s v =
     (case v of
        PyFloat x \<Rightarrow> Return () (s\<lparr>prior_mean := [x]\<rparr>)
      | Tensor0 x \<Rightarrow> Return () (s\<lparr>prior_mean := [x]\<rparr>)
      | Tensor1 xs \<Rightarrow>
          if length xs \<notin> {1, n_params s}
          then Raise (ValueError ''Invalid length of prior mean.'') s
          else Return () (s\<lparr>prior_mean := xs\<rparr>)
      | TensorN xs \<Rightarrow> Raise (ValueError ''Prior mean has too many dimensions!'') s
      | PyOther \<Rightarrow> Raise (ValueError ''Invalid argument type of prior mean.'') s)"

definition set_sigma_noise :: "'a base_scheme \<Rightarrow> py_value \<Rightarrow> (unit, 'a base_scheme) result" where
  "set_sigma_noise s0 v =
     (let s = s0\<lparr>posterior_scale := None\<rparr> in
      case v of
        PyFloat x \<Rightarrow> Return () (s\<lparr>sigma_noise := x\<rparr>)
      | Tensor0 x \<Rightarrow> Return () (s\<lparr>sigma_noise := x\<rparr>)
      | Tensor1 xs \<Rightarrow>
          if length xs > 1
          then Raise (ValueError ''Only homoscedastic output noise supported.'') s
          else (case xs of
                  [] \<Rightarrow> Raise IndexError s
                | x # _ \<Rightarrow> Return () (s\<lparr>sigma_noise := x\<rparr>))
      | TensorN xs \<Rightarrow> Raise (ValueError ''Sigma noise needs to be scalar or 1-dimensional.'') s
      | PyOther \<Rightarrow>
          Raise (ValueError ''Invalid type: sigma noise needs to be torch.Tensor or scalar.'') s)"

text \<open>
  The truth value of \<open>sigma_noise != 1\<close>: a comparison of a tensor is a tensor of
  booleans, whose truth value exists only when it has exactly one element.
\<close>

definition differs_from_one :: "py_value \<Rightarrow> error + bool" where
  "differs_from_one v =
     (case v of
        PyFloat x \<Rightarrow> Inr (x \<noteq> 1)
      | Tensor0 x \<Rightarrow> Inr (x \<noteq> 1)
      | Tensor1 xs \<Rightarrow>
          (case xs of [x] \<Rightarrow> Inr (x \<noteq> 1)
                    | _ \<Rightarrow> Inl (RuntimeError ''Boolean value of Tensor is ambiguous''))
      | TensorN xs \<Rightarrow>
          (case xs of [x] \<Rightarrow> Inr (x \<noteq> 1)
                    | _ \<Rightarrow> Inl (RuntimeError ''Boolean value of Tensor is ambiguous''))
      | PyOther \<Rightarrow> Inr True)"

text \<open>
  \<open>BaseLaplace.__init__\<close>.  The assignment \<open>self.prior_precision = ...\<close> dispatches
  to the setter of the object's class, so the setter is an argument: \<open>set_prior_precision\<close>
  for every class but \<open>KronLaplace\<close>, which has \<open>kron_set_prior_precision\<close>.  On a
  model without parameters \<open>next(model.parameters())\<close> raises \<open>StopIteration\<close>.  An
  exception leaves no object behind.
\<close>

definition blank :: "real list list \<Rightarrow> base" where
  "blank model =
     \<lparr>model_params = model, likelihood = [], prior_precision = [], prior_mean = [],
      sigma_noise = 0, temperature = 0, loss = 0, n_outputs = None, n_data = None,
      map_estimate = [], posterior_scale = None\<rparr>"

definition BaseLaplace_init ::
  "(base \<Rightarrow> py_value \<Rightarrow> (unit, base) result) \<Rightarrow> real list list \<Rightarrow> string \<Rightarrow> py_value \<Rightarrow>
   py_value \<Rightarrow> py_value \<Rightarrow> real \<Rightarrow> error + base" where
  "BaseLaplace_init setter model lik sigma prior_prec prior_mu temp =
     (if lik \<notin> {''classification'', ''regression''}
      then Inl (ValueError ''Invalid likelihood type'')
      else if model = [] then Inl StopIteration
      else case setter (blank model) prior_prec of
        Raise e _ \<Rightarrow> Inl e
      | Return _ s1 \<Rightarrow>
     (case set_prior_mean s1 prior_mu of
        Raise e _ \<Rightarrow> Inl e
      | Return _ s2 \<Rightarrow>
     (case differs_from_one sigma of
        Inl e \<Rightarrow> Inl e
      | Inr ne \<Rightarrow>
          if ne \<and> lik \<noteq> ''regression''
          then Inl (ValueError ''Sigma noise != 1 only available for regression.'')
          else (case set_sigma_noise (s2\<lparr>likelihood := lik\<rparr>) sigma of
                  Raise e _ \<Rightarrow> Inl e
                | Return _ s3 \<Rightarrow>
                    Inr (s3\<lparr>temperature := temp, loss := 0, n_outputs := None, n_data := None,
                            map_estimate := parameters_to_vector model\<rparr>)))))"

text \<open>
  \<open>_H_factor\<close>.  Where \<open>sigma_noise\<close> or \<open>temperature\<close> is zero the source divides
  by zero and gets an infinity; the reals have none, so every statement below that reads
  \<open>H_factor\<close> assumes both are non-zero.
\<close>

definition H_factor :: "'a base_scheme \<Rightarrow> real" where
  "H_factor s = 1 / (sigma_noise s)\<^sup>2 / temperature s"

subsection \<open>Tensor arithmetic\<close>

definition bind_err :: "error + 'a \<Rightarrow> ('a \<Rightarrow> error + 'b) \<Rightarrow> error + 'b" where
  "bind_err r f = (case r of Inl e \<Rightarrow> Inl e | Inr a \<Rightarrow> f a)"

text \<open>
  An elementwise operation on two one-dimensional tensors, with the broadcasting of
  \<open>torch\<close>: the lengths agree, or one of them is 1.
\<close>

definition broadcast2 :: "(real \<Rightarrow> real \<Rightarrow> real) \<Rightarrow> real list \<Rightarrow> real list \<Rightarrow> error + real list" where
  "broadcast2 f u v =
     (if length u = length v then Inr (map (\<lambda>(a, b). f a b) (zip u v))
      else if length v = 1 then Inr (map (\<lambda>a. f a (hd v)) u)
      else if length u = 1 then Inr (map (\<lambda>b. f (hd u) b) v)
      else Inl (RuntimeError ''The size of tensor a must match the size of tensor b''))"

text \<open>\<open>u @ v\<close> on one-dimensional tensors.\<close>

definition dot :: "real list \<Rightarrow> real list \<Rightarrow> error + real" where
  "dot u v =
     (if length u = length v then Inr (sum_list (map (\<lambda>(a, b). a * b) (zip u v)))
      else Inl (RuntimeError ''inconsistent tensor size''))"

definition zeros :: "nat \<Rightarrow> nat \<Rightarrow> real list list" where
  "zeros m n = replicate m (replicate n 0)"

definition smul :: "real \<Rightarrow> real list list \<Rightarrow> real list list" where
  "smul c A = map (map (\<lambda>a. c * a)) A"

text \<open>\<open>torch.diag\<close> of a one-dimensional tensor.\<close>

definition diag_matrix :: "real list \<Rightarrow> real list list" where
  "diag_matrix v =
     map (\<lambda>i. map (\<lambda>j. if i = j then v ! i else 0) [0..<length v]) [0..<length v]"

text \<open>
  The sum of two matrices of one shape.  Operands of different shapes raise here;
  the broadcasting that \<open>torch\<close> would try on some of them is not modelled, and no
  statement below depends on such operands.
\<close>

definition madd :: "real list list \<Rightarrow> real list list \<Rightarrow> error + real list list" where
  "madd A B =
     (if map length A = map length B
      then Inr (map (\<lambda>(r, r'). map (\<lambda>(a, b). a + b) (zip r r')) (zip A B))
      else Inl (RuntimeError ''The size of tensor a must match the size of tensor b''))"

text \<open>\<open>A @ B\<close> on matrices.\<close>

definition mmul :: "real list list \<Rightarrow> real list list \<Rightarrow> error + real list list" where
  "mmul A B =
     (if list_all (\<lambda>r. length r = length B) A
      then Inr (map (\<lambda>r. map (\<lambda>j. sum_list (map (\<lambda>(a, b). a * b ! j) (zip r B)))
                          [0..<(case B of [] \<Rightarrow> 0 | b # _ \<Rightarrow> length b)])
                    A)
      else Inl (RuntimeError ''mat1 and mat2 shapes cannot be multiplied''))"

text \<open>\<open>sum over p and q of u[p] * S[p][q] * v[q]\<close>.\<close>

definition quad_form :: "real list \<Rightarrow> real list list \<Rightarrow> real list \<Rightarrow> real" where
  "quad_form u S v =
     sum_list (map (\<lambda>(a, row). a * sum_list (map (\<lambda>(b, c). b * c) (zip row v))) (zip u S))"

fun map_err :: "('a \<Rightarrow> error + 'b) \<Rightarrow> 'a list \<Rightarrow> error + 'b list" where
  "map_err f [] = Inr []"
| "map_err f (x # xs) =
     bind_err (f x) (\<lambda>y. bind_err (map_err f xs) (\<lambda>ys. Inr (y # ys)))"

text \<open>
  The determinant, by expansion along the first row; \<open>torch.logdet\<close> is its logarithm
  where the determinant is positive.
\<close>

definition del_col :: "nat \<Rightarrow> real list \<Rightarrow> real list" where
  "del_col j r = take j r @ drop (Suc j) r"

fun det :: "real list list \<Rightarrow> real" where
  "det [] = 1"
| "det (r # rs) =
     sum_list (map (\<lambda>j. (- 1) ^ j * r ! j * det (map (del_col j) rs)) [0..<length r])"

definition logdet :: "real list list \<Rightarrow> real" where
  "logdet A = ln (det A)"

subsection \<open>\<open>ParametricLaplace\<close>\<close>

text \<open>
  The accumulated curvature \<open>H\<close> has the type the subclass gives it: a matrix for
  \<open>FullLaplace\<close>, a vector for \<open>DiagLaplace\<close>, Kronecker factors for \<open>KronLaplace\<close>.
\<close>

record 'h parametric_laplace = base +
  H :: "'h option"

definition ParametricLaplace_init ::
  "(base \<Rightarrow> py_value \<Rightarrow> (unit, base) result) \<Rightarrow> real list list \<Rightarrow> string \<Rightarrow> py_value \<Rightarrow>
   py_value \<Rightarrow> py_value \<Rightarrow> real \<Rightarrow> error + 'h parametric_laplace" where
  "ParametricLaplace_init setter model lik sigma prior_prec prior_mu temp =
     (case BaseLaplace_init setter model lik sigma prior_prec prior_mu temp of
        Inl e \<Rightarrow> Inl e
      | Inr s \<Rightarrow> Inr (base.extend s \<lparr>H = None\<rparr>))"

text \<open>\<open>_check_fit\<close>; where it passes it hands over the curvature \<open>self.H\<close>.\<close>

definition check_fit :: "('h, 'a) parametric_laplace_scheme \<Rightarrow> error + 'h" where
  "check_fit s =
     (case H s of
        None \<Rightarrow> Inl (AttributeError ''ParametricLaplace not fitted. Run fit() first.'')
      | Some h \<Rightarrow> Inr h)"

text \<open>A \<open>DataLoader\<close>: the size of its dataset, its batch size, and its batches in order.\<close>

record ('x, 'y) loader =
  dataset_len :: nat
  batch_size :: nat
  batches :: "('x \<times> 'y) list"

text \<open>
  The loop of \<open>fit\<close>.  \<open>curv\<close> is \<open>self._curv_closure\<close>, the call into the curvature
  backend; \<open>add\<close> is the \<open>+=\<close> of the curvature type.
\<close>

fun fit_loop ::
  "('x \<Rightarrow> 'y \<Rightarrow> nat \<Rightarrow> error + real \<times> 'h) \<Rightarrow> ('h \<Rightarrow> 'h \<Rightarrow> error + 'h) \<Rightarrow> nat \<Rightarrow>
   ('h, 'a) parametric_laplace_scheme \<Rightarrow> ('x \<times> 'y) list \<Rightarrow> (unit, ('h, 'a) parametric_laplace_scheme) result" where
  "fit_loop curv add N s [] = Return () s"
| "fit_loop curv add N s ((X, y) # bs) =
     (case curv X y N of
        Inl e \<Rightarrow> Raise e s
      | Inr (loss_batch, H_batch) \<Rightarrow>
          let s1 = s\<lparr>loss := loss s + loss_batch\<rparr> in
          (case H s1 of
             None \<Rightarrow> Raise TypeError s1
           | Some h \<Rightarrow>
               (case add h H_batch of
                  Inl e \<Rightarrow> Raise e s1
                | Inr h' \<Rightarrow> fit_loop curv add N (s1\<lparr>H := Some h'\<rparr>) bs)))"

text \<open>
  \<open>ParametricLaplace.fit\<close>.  \<open>init_H\<close> is \<open>self._init_H\<close>, and \<open>out_dim X\<close> is
  \<open>self.model(X[:1]).shape[-1]\<close>, the forward pass that finds the output dimension.
  Switching the network to evaluation mode, clearing its gradients and the attribute
  \<open>output_size\<close> written on it do not reach the state modelled here.
\<close>

definition fit ::
  "(('h, 'a) parametric_laplace_scheme \<Rightarrow> 'h) \<Rightarrow> ('x \<Rightarrow> 'y \<Rightarrow> nat \<Rightarrow> error + real \<times> 'h) \<Rightarrow>
   ('h \<Rightarrow> 'h \<Rightarrow> error + 'h) \<Rightarrow> ('x \<Rightarrow> error + nat) \<Rightarrow>
   ('h, 'a) parametric_laplace_scheme \<Rightarrow> ('x, 'y) loader \<Rightarrow> (unit, ('h, 'a) parametric_laplace_scheme) result" where
  "fit init_H curv add out_dim s train_loader =
     (if H s \<noteq> None then Raise (ValueError ''Already fit.'') s
      else
        let s1 = s\<lparr>H := Some (init_H s)\<rparr> in
        case batches train_loader of
          [] \<Rightarrow> Raise StopIteration s1
        | (X, _) # _ \<Rightarrow>
            (case out_dim X of
               Inl e \<Rightarrow> Raise e s1
             | Inr c \<Rightarrow>
                 let s2 = s1\<lparr>n_outputs := Some c\<rparr>;
                     N = dataset_len train_loader in
                 (case fit_loop curv add N s2 (batches train_loader) of
                    Raise e s3 \<Rightarrow> Raise e s3
                  | Return _ s3 \<Rightarrow> Return () (s3\<lparr>n_data := Some N\<rparr>))))"

text \<open>
  \<open>KronLaplace.fit\<close>: the fit of the superclass, then the decomposition of the factors
  (\<open>Kron.decompose\<close> of \<open>laplace.matrix\<close> with the \<open>damping\<close> of the object, an
  argument here).  The copy \<open>H_facs\<close> kept on request is not modelled.
\<close>

definition kron_fit ::
  "(('h, 'a) parametric_laplace_scheme \<Rightarrow> 'h) \<Rightarrow> ('x \<Rightarrow> 'y \<Rightarrow> nat \<Rightarrow> error + real \<times> 'h) \<Rightarrow>
   ('h \<Rightarrow> 'h \<Rightarrow> error + 'h) \<Rightarrow> ('x \<Rightarrow> error + nat) \<Rightarrow> ('h \<Rightarrow> error + 'h) \<Rightarrow>
   ('h, 'a) parametric_laplace_scheme \<Rightarrow> ('x, 'y) loader \<Rightarrow> (unit, ('h, 'a) parametric_laplace_scheme) result" where
  "kron_fit init_H curv add out_dim decompose s train_loader =
     (case fit init_H curv add out_dim s train_loader of
        Raise e s1 \<Rightarrow> Raise e s1
      | Return _ s1 \<Rightarrow>
          (case H s1 of
             None \<Rightarrow> Raise TypeError s1
           | Some h \<Rightarrow>
               (case decompose h of
                  Inl e \<Rightarrow> Raise e s1
                | Inr h' \<Rightarrow> Return () (s1\<lparr>H := Some h'\<rparr>))))"

text \<open>\<open>_init_H\<close> and \<open>+=\<close> of \<open>FullLaplace\<close> and of \<open>DiagLaplace\<close>.\<close>

definition full_init_H :: "('h, 'a) parametric_laplace_scheme \<Rightarrow> real list list" where
  "full_init_H s = zeros (n_params s) (n_params s)"

definition diag_init_H :: "('h, 'a) parametric_laplace_scheme \<Rightarrow> real list" where
  "diag_init_H s = replicate (n_params s) 0"

definition vadd :: "real list \<Rightarrow> real list \<Rightarrow> error + real list" where
  "vadd u v =
     (if length u = length v then Inr (map (\<lambda>(a, b). a + b) (zip u v))
      else Inl (RuntimeError ''The size of tensor a must match the size of tensor b''))"

subsection \<open>Posterior precision and the log marginal likelihood\<close>

definition full_posterior_precision :: "(real list list, 'a) parametric_laplace_scheme \<Rightarrow> error + real list list" where
  "full_posterior_precision s =
     bind_err (check_fit s) (\<lambda>h.
     bind_err (prior_precision_diag s) (\<lambda>p.
       madd (smul (H_factor s) h) (diag_matrix p)))"

definition full_log_det_posterior_precision :: "(real list list, 'a) parametric_laplace_scheme \<Rightarrow> error + real" where
  "full_log_det_posterior_precision s =
     bind_err (full_posterior_precision s) (\<lambda>P. Inr (logdet P))"

definition diag_posterior_precision :: "(real list, 'a) parametric_laplace_scheme \<Rightarrow> error + real list" where
  "diag_posterior_precision s =
     bind_err (check_fit s) (\<lambda>h.
     bind_err (prior_precision_diag s) (\<lambda>p.
       broadcast2 (\<lambda>a b. a + b) (map (\<lambda>a. H_factor s * a) h) p))"

definition diag_log_det_posterior_precision :: "(real list, 'a) parametric_laplace_scheme \<Rightarrow> error + real" where
  "diag_log_det_posterior_precision s =
     bind_err (diag_posterior_precision s) (\<lambda>p. Inr (sum_list (map ln p)))"

text \<open>
  \<open>KronLaplace\<close>: \<open>(self.H * self._H_factor + self.prior_precision).logdet()\<close> is computed
  by \<open>laplace.matrix.KronDecomposed\<close>, an argument here.
\<close>

definition kron_log_det_posterior_precision ::
  "('h \<Rightarrow> real \<Rightarrow> real list \<Rightarrow> error + real) \<Rightarrow> ('h, 'a) parametric_laplace_scheme \<Rightarrow> error + real" where
  "kron_log_det_posterior_precision kron_logdet s =
     bind_err (check_fit s) (\<lambda>h. kron_logdet h (H_factor s) (prior_precision s))"

definition log_likelihood :: "('h, 'a) parametric_laplace_scheme \<Rightarrow> error + real" where
  "log_likelihood s =
     bind_err (check_fit s) (\<lambda>_.
       let factor = - H_factor s in
       if likelihood s = ''regression''
       then (case (n_data s, n_outputs s) of
               (Some n, Some k) \<Rightarrow>
                 Inr (factor * loss s - real n * real k * ln (sigma_noise s * sqrt (2 * pi)))
             | _ \<Rightarrow> Inl TypeError)
       else Inr (factor * loss s))"

definition scatter :: "'a base_scheme \<Rightarrow> error + real" where
  "scatter s =
     bind_err (broadcast2 (\<lambda>a b. a - b) (map_estimate s) (prior_mean s)) (\<lambda>delta.
     bind_err (prior_precision_diag s) (\<lambda>p.
     bind_err (broadcast2 (\<lambda>a b. a * b) delta p) (\<lambda>w. dot w delta)))"

definition log_det_prior_precision :: "'a base_scheme \<Rightarrow> error + real" where
  "log_det_prior_precision s =
     bind_err (prior_precision_diag s) (\<lambda>p. Inr (sum_list (map ln p)))"

text \<open>
  \<open>log_det_posterior_precision\<close> is abstract in \<open>ParametricLaplace\<close>; the property of the
  subclass is the argument \<open>ldpp\<close>.
\<close>

definition log_det_ratio ::
  "(('h, 'a) parametric_laplace_scheme \<Rightarrow> error + real) \<Rightarrow> ('h, 'a) parametric_laplace_scheme \<Rightarrow> error + real" where
  "log_det_ratio ldpp s =
     bind_err (ldpp s) (\<lambda>post.
     bind_err (log_det_prior_precision s) (\<lambda>prior. Inr (post - prior)))"

definition log_marginal_likelihood' ::
  "(('h, 'a) parametric_laplace_scheme \<Rightarrow> error + real) \<Rightarrow> ('h, 'a) parametric_laplace_scheme \<Rightarrow> error + real" where
  "log_marginal_likelihood' ldpp s =
     bind_err (log_likelihood s) (\<lambda>ll.
     bind_err (log_det_ratio ldpp s) (\<lambda>ldr.
     bind_err (scatter s) (\<lambda>sc. Inr (ll - 0.5 * (ldr + sc)))))"

definition lift :: "error + 'a \<Rightarrow> 's \<Rightarrow> ('a, 's) result" where
  "lift r s = (case r of Inl e \<Rightarrow> Raise e s | Inr a \<Rightarrow> Return a s)"

definition rbind :: "('a, 's) result \<Rightarrow> ('a \<Rightarrow> 's \<Rightarrow> ('b, 's) result) \<Rightarrow> ('b, 's) result" where
  "rbind r f = (case r of Raise e s \<Rightarrow> Raise e s | Return a s \<Rightarrow> f a s)"

text \<open>
  \<open>BaseLaplace.log_marginal_likelihood\<close> on a parametric approximation (whose
  \<open>_log_marginal_likelihood\<close> is \<open>log_marginal_likelihood'\<close>); \<open>setter\<close> is the
  prior-precision setter of the object's class.
\<close>

definition log_marginal_likelihood ::
  "(('h, 'a) parametric_laplace_scheme \<Rightarrow> py_value \<Rightarrow> (unit, ('h, 'a) parametric_laplace_scheme) result) \<Rightarrow>
   (('h, 'a) parametric_laplace_scheme \<Rightarrow> error + real) \<Rightarrow> ('h, 'a) parametric_laplace_scheme \<Rightarrow>
   py_value option \<Rightarrow> py_value option \<Rightarrow> (real, ('h, 'a) parametric_laplace_scheme) result" where
  "log_marginal_likelihood setter ldpp s0 prior_prec sigma =
     rbind (lift (check_fit s0) s0) (\<lambda>_ s.
     rbind (case prior_prec of None \<Rightarrow> Return () s | Some v \<Rightarrow> setter s v) (\<lambda>_ s1.
     rbind (case sigma of
              None \<Rightarrow> Return () s1
            | Some v \<Rightarrow>
                if likelihood s1 \<noteq> ''regression''
                then Raise (ValueError ''Can only change sigma_noise for regression.'') s1
                else set_sigma_noise s1 v) (\<lambda>_ s2.
       lift (log_marginal_likelihood' ldpp s2) s2)))"

subsection \<open>Predictions\<close>

text \<open>
  What the approximation calls and does not implement: the network, the Jacobians of the
  curvature backend, the functional variance and the sampler of the subclass (both draw on
  \<open>laplace.utils\<close> or \<open>laplace.matrix\<close> and on \<open>torch.distributions\<close>), and the two
  link approximations that sample or build a \<open>torch\<close> distribution.  An input batch has
  the abstract type \<open>'x\<close>.
\<close>

record ('x, 's) collaborators =
  forward :: "real list list \<Rightarrow> 'x \<Rightarrow> error + real list list"
  jacobians :: "real list list \<Rightarrow> 'x \<Rightarrow> error + real list list list \<times> real list list"
  functional_variance :: "'s \<Rightarrow> real list list list \<Rightarrow> (real list list list, 's) result"
  sample :: "'s \<Rightarrow> nat \<Rightarrow> (real list list, 's) result"
  mc_link :: "real list list \<Rightarrow> real list list list \<Rightarrow> nat \<Rightarrow> error + real list list"
  bridge_link :: "real list list \<Rightarrow> real list list list \<Rightarrow> error + real list list"

text \<open>
  \<open>torch.nn.utils.vector_to_parameters\<close>: the vector is cut into the parameter tensors
  in order.  A vector that is too short raises at the first tensor it cannot fill, with the
  tensors before it already overwritten.
\<close>

fun vector_to_parameters :: "real list \<Rightarrow> real list list \<Rightarrow> (unit, real list list) result" where
  "vector_to_parameters vec [] = Return () []"
| "vector_to_parameters vec (p # ps) =
     (if length vec < length p
      then Raise (RuntimeError ''shape is invalid for input size'') (p # ps)
      else (case vector_to_parameters (drop (length p) vec) ps of
              Return _ ps' \<Rightarrow> Return () (take (length p) vec # ps')
            | Raise e ps' \<Rightarrow> Raise e (take (length p) vec # ps')))"

definition write_parameters :: "real list \<Rightarrow> 'a base_scheme \<Rightarrow> (unit, 'a base_scheme) result" where
  "write_parameters vec s =
     (case vector_to_parameters vec (model_params s) of
        Return _ ps \<Rightarrow> Return () (s\<lparr>model_params := ps\<rparr>)
      | Raise e ps \<Rightarrow> Raise e (s\<lparr>model_params := ps\<rparr>))"

definition softmax :: "real list \<Rightarrow> real list" where
  "softmax xs = map (\<lambda>x. exp x / sum_list (map exp xs)) xs"

text \<open>\<open>torch.stack\<close> of a list of matrices: the list is not empty and the shapes agree.\<close>

definition stack :: "real list list list \<Rightarrow> error + real list list list" where
  "stack fs =
     (case fs of
        [] \<Rightarrow> Inl (RuntimeError ''stack expects a non-empty TensorList'')
      | f # _ \<Rightarrow>
          if list_all (\<lambda>g. map length g = map length f) fs then Inr fs
          else Inl (RuntimeError ''stack expects each tensor to be equal size''))"

text \<open>
  \<open>samples.mean(dim=0)\<close> and \<open>samples.var(dim=0)\<close> of a stack, which is never
  empty.  With a single sample the variance of \<open>torch\<close> is NaN, which the reals do not
  have.
\<close>

definition mean0 :: "real list list list \<Rightarrow> real list list" where
  "mean0 fs =
     (case fs of
        [] \<Rightarrow> []
      | f0 # _ \<Rightarrow>
          map (\<lambda>i. map (\<lambda>j. sum_list (map (\<lambda>f. f ! i ! j) fs) / real (length fs))
                     [0..<length (f0 ! i)])
              [0..<length f0])"

definition var0 :: "real list list list \<Rightarrow> real list list" where
  "var0 fs =
     (case fs of
        [] \<Rightarrow> []
      | f0 # _ \<Rightarrow>
          map (\<lambda>i. map (\<lambda>j. sum_list (map (\<lambda>f. (f ! i ! j - mean0 fs ! i ! j)\<^sup>2) fs)
                             / (real (length fs) - 1))
                     [0..<length (f0 ! i)])
              [0..<length f0])"

text \<open>The loop of \<open>_nn_predictive_samples\<close>: write the sample, evaluate the network.\<close>

fun nn_loop ::
  "(real list list \<Rightarrow> 'x \<Rightarrow> error + real list list) \<Rightarrow> 'x \<Rightarrow> 'a base_scheme \<Rightarrow> real list list \<Rightarrow>
   (real list list list, 'a base_scheme) result" where
  "nn_loop fwd X s [] = Return [] s"
| "nn_loop fwd X s (smp # rest) =
     rbind (write_parameters smp s) (\<lambda>_ s1.
     rbind (lift (fwd (model_params s1) X) s1) (\<lambda>f s2.
     rbind (nn_loop fwd X s2 rest) (\<lambda>fs s3. Return (f # fs) s3)))"

definition nn_predictive_samples ::
  "('x, 'a base_scheme) collaborators \<Rightarrow> 'a base_scheme \<Rightarrow> 'x \<Rightarrow> nat \<Rightarrow>
   (real list list list, 'a base_scheme) result" where
  "nn_predictive_samples c s0 X n_samples =
     rbind (sample c s0 n_samples) (\<lambda>samples s.
     rbind (nn_loop (forward c) X s samples) (\<lambda>fs s1.
     rbind (write_parameters (map_estimate s1) s1) (\<lambda>_ s2.
     rbind (lift (stack fs) s2) (\<lambda>fs' s3.
       if likelihood s3 = ''classification''
       then Return (map (map softmax) fs') s3
       else Return fs' s3))))"

definition glm_predictive_distribution ::
  "('x, 's) collaborators \<Rightarrow> ('s \<Rightarrow> real list list) \<Rightarrow> 's \<Rightarrow> 'x \<Rightarrow>
   (real list list \<times> real list list list, 's) result" where
  "glm_predictive_distribution c params s X =
     rbind (lift (jacobians c (params s) X) s) (\<lambda>(Js, f_mu) s1.
     rbind (functional_variance c s1 Js) (\<lambda>f_var s2. Return (f_mu, f_var) s2))"

text \<open>
  The probit approximation.  Where \<open>1 + pi / 8 * variance\<close> is negative the source has a
  NaN, which the reals do not have.
\<close>

definition diagonal :: "real list list \<Rightarrow> real list" where
  "diagonal A =
     (case A of
        [] \<Rightarrow> []
      | r # _ \<Rightarrow> map (\<lambda>i. A ! i ! i) [0..<min (length A) (length r)])"

definition probit :: "real list list \<Rightarrow> real list list list \<Rightarrow> real list list" where
  "probit f_mu f_var =
     map (\<lambda>(mu, var).
            softmax (map (\<lambda>(m, v). 1 / sqrt (1 + pi / 8 * v) * m) (zip mu (diagonal var))))
         (zip f_mu f_var)"

definition classification_predictive ::
  "('x, 's) collaborators \<Rightarrow> real list list \<Rightarrow> real list list list \<Rightarrow> string \<Rightarrow> nat \<Rightarrow>
   error + real list list" where
  "classification_predictive c f_mu f_var link_approx n_samples =
     (if link_approx \<notin> {''mc'', ''probit'', ''bridge''}
      then Inl (ValueError ''Unsupported link approximation'')
      else if link_approx = ''mc'' then mc_link c f_mu f_var n_samples
      else if link_approx = ''probit'' then Inr (probit f_mu f_var)
      else bridge_link c f_mu f_var)"

datatype prediction =
    Probs "real list list"
  | MeanCov "real list list" "real list list list"
  | MeanVar "real list list" "real list list"

text \<open>\<open>ParametricLaplace.__call__\<close>; \<open>predictive\<close> of \<open>BaseLaplace\<close> only forwards to it.\<close>

definition call ::
  "('x, ('h, 'a) parametric_laplace_scheme) collaborators \<Rightarrow> ('h, 'a) parametric_laplace_scheme \<Rightarrow>
   'x \<Rightarrow> string \<Rightarrow> string \<Rightarrow> nat \<Rightarrow> (prediction, ('h, 'a) parametric_laplace_scheme) result" where
  "call c s0 x pred_type link_approx n_samples =
     rbind (lift (check_fit s0) s0) (\<lambda>_ s.
       if pred_type \<notin> {''glm'', ''nn''}
       then Raise (ValueError ''Only glm and nn supported as prediction types.'') s
       else if pred_type = ''glm''
       then rbind (glm_predictive_distribution c model_params s x) (\<lambda>(f_mu, f_var) s1.
              if likelihood s1 = ''regression'' then Return (MeanCov f_mu f_var) s1
              else rbind (lift (classification_predictive c f_mu f_var link_approx n_samples) s1)
                     (\<lambda>p s2. Return (Probs p) s2))
       else rbind (nn_predictive_samples c s x n_samples) (\<lambda>samples s1.
              if likelihood s1 = ''regression''
              then Return (MeanVar (mean0 samples) (var0 samples)) s1
              else Return (Probs (mean0 samples)) s1))"

definition predictive ::
  "('x, ('h, 'a) parametric_laplace_scheme) collaborators \<Rightarrow> ('h, 'a) parametric_laplace_scheme \<Rightarrow>
   'x \<Rightarrow> string \<Rightarrow> string \<Rightarrow> nat \<Rightarrow> (prediction, ('h, 'a) parametric_laplace_scheme) result" where
  "predictive c s x pred_type link_approx n_samples = call c s x pred_type link_approx n_samples"

subsection \<open>The predictive variance of \<open>FullLaplace\<close>\<close>

text \<open>
  \<open>posterior_scale\<close> computes the scale once and keeps it; \<open>invsqrt_precision\<close> is
  in \<open>laplace.utils\<close> and an argument here: it returns a matrix \<open>L\<close> with
  \<open>L @ L.T\<close> the inverse of the precision.
\<close>

definition full_posterior_scale ::
  "(real list list \<Rightarrow> error + real list list) \<Rightarrow> (real list list, 'a) parametric_laplace_scheme \<Rightarrow>
   (real list list, (real list list, 'a) parametric_laplace_scheme) result" where
  "full_posterior_scale invsqrt_precision s =
     (case posterior_scale s of
        Some L \<Rightarrow> Return L s
      | None \<Rightarrow>
          rbind (lift (bind_err (full_posterior_precision s) invsqrt_precision) s)
            (\<lambda>L s1. Return L (s1\<lparr>posterior_scale := Some L\<rparr>)))"

definition full_posterior_covariance ::
  "(real list list \<Rightarrow> error + real list list) \<Rightarrow> (real list list, 'a) parametric_laplace_scheme \<Rightarrow>
   (real list list, (real list list, 'a) parametric_laplace_scheme) result" where
  "full_posterior_covariance invsqrt_precision s =
     rbind (full_posterior_scale invsqrt_precision s) (\<lambda>L s1. lift (mmul L (transpose L)) s1)"

text \<open>\<open>torch.einsum('ncp,pq,nkq->nck', Js, self.posterior_covariance, Js)\<close>.\<close>

definition full_functional_variance ::
  "(real list list \<Rightarrow> error + real list list) \<Rightarrow> (real list list, 'a) parametric_laplace_scheme \<Rightarrow>
   real list list list \<Rightarrow>
   (real list list list, (real list list, 'a) parametric_laplace_scheme) result" where
  "full_functional_variance invsqrt_precision s Js =
     rbind (full_posterior_covariance invsqrt_precision s) (\<lambda>S s1.
       if \<not> list_all (list_all (\<lambda>r. length r = length S)) Js \<or>
          \<not> list_all (\<lambda>r. length r = length S) S
       then Raise (RuntimeError ''einsum: operands do not broadcast'') s1
       else Return (map (\<lambda>J. map (\<lambda>rc. map (\<lambda>rk. quad_form rc S rk) J) J) Js) s1)"

subsection \<open>The Gauss-Newton backend\<close>

text \<open>
  \<open>CurvatureInterface._get_full_ggn\<close> and \<open>BackPackGGN.full\<close> of
  \<open>laplace/curvature.py\<close>.  \<open>lossfunc\<close> is the \<open>torch.nn\<close> loss with
  \<open>reduction='sum'\<close> that the constructor picks for the likelihood, and \<open>jac\<close> is
  \<open>Jacobians(self.model, X)\<close> of \<open>laplace.jacobians\<close>.
\<close>

definition backend_factor :: "string \<Rightarrow> real" where
  "backend_factor lik = (if lik = ''regression'' then 0.5 else 1)"

definition get_full_ggn ::
  "(real list list \<Rightarrow> 'y \<Rightarrow> real) \<Rightarrow> string \<Rightarrow> real list list list \<Rightarrow> real list list \<Rightarrow> 'y \<Rightarrow>
   real \<times> real list list" where
  "get_full_ggn lossfunc lik Js f y =
     (let loss = backend_factor lik * lossfunc f y;
          P = (case concat Js of [] \<Rightarrow> 0 | r # _ \<Rightarrow> length r)
      in if lik = ''regression''
         then (loss,
               map (\<lambda>p. map (\<lambda>q. sum_list (map (\<lambda>r. r ! p * r ! q) (concat Js))) [0..<P])
                   [0..<P])
         else
           let ps = map softmax f;
               H_lik = map (\<lambda>pm. map (\<lambda>c. map (\<lambda>k. (if c = k then pm ! c else 0) - pm ! k * pm ! c)
                                              [0..<length pm])
                                   [0..<length pm]) ps
           in (loss,
               map (\<lambda>p. map (\<lambda>q. sum_list (map (\<lambda>(J, Hm).
                                     sum_list (map (\<lambda>c. sum_list (map (\<lambda>k.
                                         J ! c ! p * Hm ! c ! k * J ! k ! q) [0..<length J]))
                                       [0..<length J]))
                                   (zip Js H_lik)))
                            [0..<P])
                   [0..<P]))"

definition BackPackGGN_full ::
  "bool \<Rightarrow> ('x \<Rightarrow> error + real list list list \<times> real list list) \<Rightarrow>
   (real list list \<Rightarrow> 'y \<Rightarrow> real) \<Rightarrow> string \<Rightarrow> 'x \<Rightarrow> 'y \<Rightarrow> nat \<Rightarrow> error + real \<times> real list list" where
  "BackPackGGN_full stochastic jac lossfunc lik X y N =
     (if stochastic then Inl (ValueError ''Stochastic approximation not implemented for full GGN.'')
      else bind_err (jac X) (\<lambda>(Js, f). Inr (get_full_ggn lossfunc lik Js f y)))"

text \<open>\<open>MSELoss(reduction='sum')\<close> on outputs and targets of one shape.\<close>

definition mse_sum :: "real list list \<Rightarrow> real list list \<Rightarrow> real" where
  "mse_sum f y =
     sum_list (map (\<lambda>(r, r'). sum_list (map (\<lambda>(a, b). (a - b)\<^sup>2) (zip r r'))) (zip f y))"

subsection \<open>Grid search over the prior precision\<close>

text \<open>
  A validation loss as the floating-point number it is: finite, an infinity, or NaN.
  \<open>score_le\<close> is \<open><=\<close> on floats, false as soon as one side is NaN.
\<close>

datatype score = Finite real | Infinity | NegInfinity | NaN

fun score_le :: "score \<Rightarrow> score \<Rightarrow> bool" where
  "score_le NaN _ = False"
| "score_le _ NaN = False"
| "score_le NegInfinity _ = True"
| "score_le _ Infinity = True"
| "score_le (Finite a) (Finite b) = (a \<le> b)"
| "score_le _ _ = False"

text \<open>
  What \<open>except RuntimeError\<close> catches: \<open>RuntimeError\<close> and its subclasses, of which
  \<open>NotImplementedError\<close> is one.
\<close>

fun is_RuntimeError :: "error \<Rightarrow> bool" where
  "is_RuntimeError (RuntimeError _) = True"
| "is_RuntimeError NotImplementedError = True"
| "is_RuntimeError _ = False"

text \<open>
  \<open>np.argmin\<close>: the index of the first NaN where there is one, and the first index of
  a least element otherwise.
\<close>

fun argmin :: "score list \<Rightarrow> nat" where
  "argmin [] = 0"
| "argmin (x # xs) =
     (if x = NaN then 0
      else if NaN \<notin> set xs \<and> list_all (score_le x) xs then 0
      else Suc (argmin xs))"

text \<open>
  The loop of \<open>_gridsearch\<close>.  \<open>evaluate\<close> is \<open>loss(*validate(self, val_loader, ...))\<close>,
  the body of the \<open>try\<close>; \<open>validate\<close> is in \<open>laplace.utils\<close>.  The candidates are
  zero-dimensional tensors, which the setter of every class stores without a check.
\<close>

fun gridsearch_loop ::
  "('a base_scheme \<Rightarrow> (score, 'a base_scheme) result) \<Rightarrow> 'a base_scheme \<Rightarrow> real list \<Rightarrow>
   ((score \<times> real) list, 'a base_scheme) result" where
  "gridsearch_loop evaluate s [] = Return [] s"
| "gridsearch_loop evaluate s (prior_prec # rest) =
     rbind (set_prior_precision s (Tensor0 prior_prec)) (\<lambda>_ s1.
     rbind (case evaluate s1 of
              Return r s2 \<Rightarrow> Return r s2
            | Raise e s2 \<Rightarrow> if is_RuntimeError e then Return Infinity s2 else Raise e s2) (\<lambda>r s2.
     rbind (gridsearch_loop evaluate s2 rest) (\<lambda>rs s3. Return ((r, prior_prec) # rs) s3)))"

definition gridsearch ::
  "('a base_scheme \<Rightarrow> (score, 'a base_scheme) result) \<Rightarrow> 'a base_scheme \<Rightarrow> real list \<Rightarrow>
   (real, 'a base_scheme) result" where
  "gridsearch evaluate s interval =
     rbind (gridsearch_loop evaluate s interval) (\<lambda>rs s1.
       if rs = [] then Raise (ValueError ''attempt to get argmin of an empty sequence'') s1
       else Return (map snd rs ! argmin (map fst rs)) s1)"

subsection \<open>\<open>FunctionalLaplace\<close>\<close>

text \<open>
  The kernel over the inducing points: one matrix of size \<open>M * C\<close>, or with
  \<open>diagonal_kernel\<close> one matrix of size \<open>M\<close> for each output.
\<close>

datatype kernel = Joint "real list list" | PerChannel "real list list list"

record 'x functional_laplace = base +
  M :: "nat option"
  diagonal_kernel :: bool
  diagonal_L :: bool
  K_MM :: "kernel option"
  Sigma_inv :: "kernel option"
  train_loader :: "('x, real list list) loader option"
  self_batch_size :: "nat option"
  prior_factor_sod :: "real option"
  mu :: "real list list option"

text \<open>
  \<open>FunctionalLaplace.__init__\<close>; the assertion on the backend class is a property of the
  caller's argument and has no counterpart here.
\<close>

definition FunctionalLaplace_init ::
  "real list list \<Rightarrow> string \<Rightarrow> nat option \<Rightarrow> py_value \<Rightarrow> py_value \<Rightarrow> py_value \<Rightarrow> real \<Rightarrow>
   bool \<Rightarrow> bool \<Rightarrow> error + 'x functional_laplace" where
  "FunctionalLaplace_init model lik m sigma prior_prec prior_mu temp diag_kernel diag_L =
     (case BaseLaplace_init set_prior_precision model lik sigma prior_prec prior_mu temp of
        Inl e \<Rightarrow> Inl e
      | Inr s \<Rightarrow>
          if \<not> diag_kernel \<and> lik = ''classification'' \<and> \<not> diag_L then Inl AssertionError
          else Inr (base.extend s
                 \<lparr>M = m, diagonal_kernel = diag_kernel, diagonal_L = diag_L, K_MM = None,
                  Sigma_inv = None, train_loader = None, self_batch_size = None,
                  prior_factor_sod = None, mu = None\<rparr>))"

definition gp_check_fit :: "('x, 'a) functional_laplace_scheme \<Rightarrow> error + unit" where
  "gp_check_fit s =
     (if K_MM s = None \<or> Sigma_inv s = None \<or> train_loader s = None
      then Inl (AttributeError ''Laplace not fitted. Run fit() first.'')
      else Inr ())"

text \<open>
  The collaborators of the functional approximation: the forward pass that finds the
  output dimension, the subset-of-data loader (\<open>SoDSampler\<close> of \<open>laplace.utils\<close>,
  seeded), the curvature backend, and \<open>cholesky\<close> and \<open>solve\<close> of \<open>torch.linalg\<close>
  (\<open>solve A B\<close> is the \<open>X\<close> with \<open>A X = B\<close>).
\<close>

record 'x gp_collaborators =
  gp_out_dim :: "'x \<Rightarrow> error + nat"
  sod_loader :: "nat \<Rightarrow> ('x, real list list) loader \<Rightarrow> ('x, real list list) loader"
  gp_quantities ::
    "'x \<Rightarrow> real list list \<Rightarrow> real \<Rightarrow>
     error + real \<times> real list list list \<times> real list list \<times> real list list list"
  gp_jacobians :: "real list list \<Rightarrow> 'x \<Rightarrow> error + real list list list \<times> real list list"
  cholesky :: "real list list \<Rightarrow> error + real list list"
  solve :: "real list list \<Rightarrow> real list list \<Rightarrow> error + real list list"

text \<open>Reading an attribute that is still \<open>None\<close> where a number is needed.\<close>

definition need :: "'a option \<Rightarrow> error + 'a" where
  "need v = (case v of None \<Rightarrow> Inl TypeError | Some a \<Rightarrow> Inr a)"

definition init_K_MM :: "bool \<Rightarrow> nat \<Rightarrow> nat \<Rightarrow> kernel" where
  "init_K_MM diag_kernel m k =
     (if diag_kernel then PerChannel (replicate k (zeros m m)) else Joint (zeros (m * k) (m * k)))"

definition init_Sigma_inv :: "bool \<Rightarrow> nat \<Rightarrow> nat \<Rightarrow> kernel" where
  "init_Sigma_inv diag_kernel m k =
     (if diag_kernel then PerChannel (replicate k (zeros m m)) else Joint (zeros (m * k) (m * k)))"

text \<open>
  The kernel of two batches.  \<open>prior\<close> is \<open>prior_factor_sod / prior_precision_diag\<close>;
  a zero precision gives an infinity in the source, which the reals do not have.  The
  backend is a \<open>BackPackInterface\<close> by the assertion of the constructor, the one branch
  of \<open>_kernel_batch\<close> that computes.  Jacobians whose last dimension is not the length of
  the prior raise.
\<close>

datatype kernel_batch = JointBatch "real list list" | ChannelBatch "real list list list"

definition weighted_dot :: "real list \<Rightarrow> real list \<Rightarrow> real list \<Rightarrow> real" where
  "weighted_dot u w v = sum_list (map (\<lambda>(a, c, b). a * c * b) (zip u (zip w v)))"

text \<open>\<open>self.prior_factor_sod / self.prior_precision_diag\<close>.\<close>

definition gp_prior :: "('x, 'a) functional_laplace_scheme \<Rightarrow> error + real list" where
  "gp_prior s =
     bind_err (prior_precision_diag s) (\<lambda>p.
     bind_err (need (prior_factor_sod s)) (\<lambda>sod. Inr (map (\<lambda>a. sod / a) p)))"

definition kernel_batch ::
  "'x gp_collaborators \<Rightarrow> ('x, 'a) functional_laplace_scheme \<Rightarrow> real list list list \<Rightarrow> 'x \<Rightarrow>
   error + kernel_batch" where
  "kernel_batch c s Js X =
     bind_err (gp_jacobians c (model_params s) X) (\<lambda>(Js2, _).
     bind_err (gp_prior s) (\<lambda>prior.
       if \<not> list_all (list_all (\<lambda>r. length r = length prior)) (Js @ Js2)
       then Inl (RuntimeError ''einsum: operands do not broadcast'')
       else if diagonal_kernel s
       then (case Js @ Js2 of
               [] \<Rightarrow> Inr (ChannelBatch [])
             | J0 # _ \<Rightarrow>
                 if \<not> list_all (\<lambda>J. length J = length J0) (Js @ Js2)
                 then Inl (RuntimeError ''einsum: operands do not broadcast'')
                 else Inr (ChannelBatch
                        (map (\<lambda>J. map (\<lambda>J2. map (\<lambda>(r, r2). weighted_dot r prior r2) (zip J J2)) Js2)
                             Js)))
       else Inr (JointBatch
              (map (\<lambda>r. map (\<lambda>r2. weighted_dot r prior r2) (concat Js2)) (concat Js)))))"

text \<open>
  \<open>K[r0:r1, c0:c1] = B\<close>: the slices are clipped to the matrix, and the block has the
  shape of the region (the broadcasting of other blocks is not modelled).
\<close>

definition set_block ::
  "real list list \<Rightarrow> nat \<Rightarrow> nat \<Rightarrow> nat \<Rightarrow> nat \<Rightarrow> real list list \<Rightarrow> error + real list list" where
  "set_block K r0 r1 c0 c1 B =
     (let rows = [r0..<min r1 (length K)] in
      if length B \<noteq> length rows \<or>
         \<not> list_all (\<lambda>(i, b). length b = length [c0..<min c1 (length (K ! i))]) (zip rows B)
      then Inl (RuntimeError ''shape mismatch'')
      else Inr (map (\<lambda>i. if i \<in> set rows
                         then map (\<lambda>j. if j \<in> set [c0..<min c1 (length (K ! i))]
                                        then B ! (i - r0) ! (j - c0) else K ! i ! j)
                                  [0..<length (K ! i)]
                         else K ! i)
                    [0..<length K]))"

definition store_block ::
  "real list list \<Rightarrow> nat \<Rightarrow> nat \<Rightarrow> nat \<Rightarrow> nat \<Rightarrow> real list list \<Rightarrow> error + real list list" where
  "store_block K i j b m B =
     bind_err (set_block K (i * b) (min ((i + 1) * b) m) (j * b) (min ((j + 1) * b) m) B) (\<lambda>K1.
       if i \<noteq> j
       then set_block K1 (j * b) (min ((j + 1) * b) m) (i * b) (min ((i + 1) * b) m) (transpose B)
       else Inr K1)"

text \<open>The loop over the outputs in \<open>_store_K_batch\<close>; an exception keeps what is stored.\<close>

fun store_channels ::
  "real list list list \<Rightarrow> real list list list \<Rightarrow> nat \<Rightarrow> nat \<Rightarrow> nat \<Rightarrow> nat \<Rightarrow> nat list \<Rightarrow>
   (unit, real list list list) result" where
  "store_channels Ks B i j b m [] = Return () Ks"
| "store_channels Ks B i j b m (ch # chs) =
     (if length Ks \<le> ch \<or> \<not> list_all (list_all (\<lambda>v. ch < length v)) B then Raise IndexError Ks
      else case store_block (Ks ! ch) i j b m (map (map (\<lambda>v. v ! ch)) B) of
             Inl e \<Rightarrow> Raise e Ks
           | Inr K1 \<Rightarrow> store_channels (Ks[ch := K1]) B i j b m chs)"

definition store_K_batch ::
  "('x, 'a) functional_laplace_scheme \<Rightarrow> kernel_batch \<Rightarrow> nat \<Rightarrow> nat \<Rightarrow>
   (unit, ('x, 'a) functional_laplace_scheme) result" where
  "store_K_batch s K_batch i j =
     (case (self_batch_size s, n_outputs s, M s, K_MM s) of
        (Some b, Some k, Some m, Some (PerChannel Ks)) \<Rightarrow>
          (case K_batch of
             ChannelBatch B \<Rightarrow>
               (case store_channels Ks B i j b m [0..<k] of
                  Return _ Ks' \<Rightarrow> Return () (s\<lparr>K_MM := Some (PerChannel Ks')\<rparr>)
                | Raise e Ks' \<Rightarrow> Raise e (s\<lparr>K_MM := Some (PerChannel Ks')\<rparr>))
           | JointBatch B \<Rightarrow> Raise IndexError s)
      | (Some b, Some k, Some m, Some (Joint K)) \<Rightarrow>
          (case K_batch of
             JointBatch B \<Rightarrow>
               (case store_block K i j (b * k) (m * k) B of
                  Inl e \<Rightarrow> Raise e s
                | Inr K1 \<Rightarrow> Return () (s\<lparr>K_MM := Some (Joint K1)\<rparr>))
           | ChannelBatch B \<Rightarrow> Raise (RuntimeError ''shape mismatch'') s)
      | _ \<Rightarrow> Raise TypeError s)"

text \<open>\<open>xs[i::k]\<close>.\<close>

definition stride :: "real list \<Rightarrow> nat \<Rightarrow> nat \<Rightarrow> real list" where
  "stride xs i k = map (\<lambda>t. xs ! t) (filter (\<lambda>t. i \<le> t \<and> (t - i) mod k = 0) [0..<length xs])"

text \<open>
  \<open>_build_L_inv\<close>.  \<open>lambdas\<close> holds one tensor of shape \<open>(b, C, C)\<close> for each batch;
  \<open>torch.cat\<close> of an empty list raises.  A zero on the diagonal gives an infinity in
  the source, which the reals do not have.
\<close>

definition build_L_inv ::
  "('x, 'a) functional_laplace_scheme \<Rightarrow> real list list list list \<Rightarrow> error + kernel" where
  "build_L_inv s lambdas =
     (if diagonal_kernel s
      then if diagonal_L s \<or> likelihood s = ''regression''
           then if lambdas = [] then Inl (RuntimeError ''torch.cat(): expected a non-empty list'')
                else bind_err (need (n_outputs s)) (\<lambda>k.
                       let L_diag = concat (map diagonal (concat lambdas)) in
                       Inr (PerChannel
                         (map (\<lambda>i. diag_matrix (map (\<lambda>d. 1 / d) (stride L_diag i k))) [0..<k])))
           else Inl NotImplementedError
      else if lambdas = [] then Inl (RuntimeError ''torch.cat(): expected a non-empty list'')
           else Inr (Joint (diag_matrix (map (\<lambda>d. 1 / d) (concat (map diagonal (concat lambdas)))))))"

fun cholesky_each ::
  "(real list list \<Rightarrow> error + real list list) \<Rightarrow> real list list list \<Rightarrow> real list list list \<Rightarrow>
   nat list \<Rightarrow> error + real list list list" where
  "cholesky_each chol Ks Ls [] = Inr []"
| "cholesky_each chol Ks Ls (ch # chs) =
     (if length Ks \<le> ch \<or> length Ls \<le> ch then Inl IndexError
      else bind_err (madd (Ks ! ch) (Ls ! ch)) (\<lambda>A.
           bind_err (chol A) (\<lambda>R.
           bind_err (cholesky_each chol Ks Ls chs) (\<lambda>Rs. Inr (R # Rs)))))"

definition build_Sigma_inv ::
  "'x gp_collaborators \<Rightarrow> ('x, 'a) functional_laplace_scheme \<Rightarrow> real list list list list \<Rightarrow>
   error + kernel" where
  "build_Sigma_inv c s lambdas =
     (if diagonal_kernel s
      then bind_err (build_L_inv s lambdas) (\<lambda>L.
           bind_err (need (n_outputs s)) (\<lambda>k.
             case (K_MM s, L) of
               (Some (PerChannel Ks), PerChannel Ls) \<Rightarrow>
                 bind_err (cholesky_each (cholesky c) Ks Ls [0..<k]) (\<lambda>Rs. Inr (PerChannel Rs))
             | _ \<Rightarrow> Inl TypeError))
      else bind_err (build_L_inv s lambdas) (\<lambda>L.
             case (K_MM s, L) of
               (Some (Joint K), Joint L_inv) \<Rightarrow>
                 bind_err (madd K L_inv) (\<lambda>A.
                 bind_err (cholesky c A) (\<lambda>R. Inr (Joint R)))
             | _ \<Rightarrow> Inl TypeError))"

text \<open>The inner loop of \<open>fit\<close>: the kernel blocks on and above the diagonal.\<close>

fun kernel_loop ::
  "'x gp_collaborators \<Rightarrow> real list list list \<Rightarrow> nat \<Rightarrow> nat \<Rightarrow> ('x, 'a) functional_laplace_scheme \<Rightarrow>
   ('x \<times> real list list) list \<Rightarrow> (unit, ('x, 'a) functional_laplace_scheme) result" where
  "kernel_loop c Js i j s [] = Return () s"
| "kernel_loop c Js i j s ((X2, _) # rest) =
     rbind (if j \<ge> i
            then rbind (lift (kernel_batch c s Js X2) s) (\<lambda>K_batch s1. store_K_batch s1 K_batch i j)
            else Return () s) (\<lambda>_ s2.
       kernel_loop c Js i (Suc j) s2 rest)"

text \<open>\<open>y - (f_batch + torch.einsum('bcp,p->bc', Js_batch, diff_mu))\<close>.\<close>

definition msub :: "real list list \<Rightarrow> real list list \<Rightarrow> error + real list list" where
  "msub A B =
     (if map length A = map length B
      then Inr (map (\<lambda>(r, r'). map (\<lambda>(a, b). a - b) (zip r r')) (zip A B))
      else Inl (RuntimeError ''The size of tensor a must match the size of tensor b''))"

definition mu_batch ::
  "real list list \<Rightarrow> real list list \<Rightarrow> real list list list \<Rightarrow> real list \<Rightarrow> error + real list list" where
  "mu_batch y f Js diff_mu =
     (if \<not> list_all (list_all (\<lambda>r. length r = length diff_mu)) Js
      then Inl (RuntimeError ''einsum: operands do not broadcast'')
      else bind_err (madd f (map (map (\<lambda>r. sum_list (map (\<lambda>(a, b). a * b) (zip r diff_mu)))) Js))
             (\<lambda>lin. msub y lin))"

text \<open>
  The outer loop of \<open>fit\<close>; it returns the lists \<open>lambdas\<close> and \<open>mu\<close>.  \<open>all_batches\<close>
  is the loader that the inner loop iterates again.
\<close>

fun gp_loop ::
  "'x gp_collaborators \<Rightarrow> real list \<Rightarrow> ('x \<times> real list list) list \<Rightarrow> nat \<Rightarrow>
   ('x, 'a) functional_laplace_scheme \<Rightarrow> ('x \<times> real list list) list \<Rightarrow>
   (real list list list list \<times> real list list list, ('x, 'a) functional_laplace_scheme) result" where
  "gp_loop c diff_mu all_batches i s [] = Return ([], []) s"
| "gp_loop c diff_mu all_batches i s ((X, y) # rest) =
     rbind (lift (gp_quantities c X y (H_factor s)) s) (\<lambda>(loss_batch, Js_batch, f_batch, lambdas_batch) s1.
     rbind (Return () (s1\<lparr>loss := loss s1 + loss_batch\<rparr>)) (\<lambda>_ s2.
     rbind (if likelihood s2 = ''regression''
            then rbind (lift (mu_batch y f_batch Js_batch diff_mu) s2) (\<lambda>m s3. Return [m] s3)
            else Return [] s2) (\<lambda>mu_new s3.
     rbind (kernel_loop c Js_batch i 0 s3 all_batches) (\<lambda>_ s4.
     rbind (gp_loop c diff_mu all_batches (Suc i) s4 rest) (\<lambda>(lambdas, mus) s5.
       Return (lambdas_batch # lambdas, mu_new @ mus) s5)))))"

text \<open>
  \<open>FunctionalLaplace.fit\<close>.  It starts with the forward pass: there is no test of whether
  the object has been fitted before, and \<open>_log_marginal_likelihood\<close> of this class calls
  \<open>self.fit(self.train_loader)\<close> on every evaluation.
\<close>

definition gp_fit ::
  "'x gp_collaborators \<Rightarrow> ('x, 'a) functional_laplace_scheme \<Rightarrow> ('x, real list list) loader \<Rightarrow>
   (unit, ('x, 'a) functional_laplace_scheme) result" where
  "gp_fit c s0 loader0 =
     (case batches loader0 of
        [] \<Rightarrow> Raise StopIteration s0
      | (X, _) # _ \<Rightarrow>
          rbind (lift (gp_out_dim c X) s0) (\<lambda>k s.
            let s1 = s\<lparr>n_outputs := Some k, self_batch_size := Some (batch_size loader0)\<rparr>;
                N = dataset_len loader0;
                s2 = s1\<lparr>n_data := Some N\<rparr>;
                m = (case M s2 of None \<Rightarrow> N | Some m \<Rightarrow> m);
                sod = sod_loader c m loader0;
                s3 = s2\<lparr>M := Some m, train_loader := Some sod\<rparr>
            in if N = 0 then Raise ZeroDivisionError s3
               else
                 let s4 = s3\<lparr>prior_factor_sod := Some (real m / real N),
                             K_MM := Some (init_K_MM (diagonal_kernel s3) m k),
                             Sigma_inv := Some (init_Sigma_inv (diagonal_kernel s3) m k)\<rparr>
                 in
                 rbind (lift (broadcast2 (\<lambda>a b. a - b) (prior_mean s4) (map_estimate s4)) s4) (\<lambda>diff_mu s5.
                 rbind (gp_loop c diff_mu (batches sod) 0 s5 (batches sod)) (\<lambda>(lambdas, mus) s6.
                 rbind (lift (build_Sigma_inv c s6 lambdas) s6) (\<lambda>Sigma s7.
                   let s8 = s7\<lparr>Sigma_inv := Some Sigma\<rparr> in
                   if likelihood s8 = ''regression''
                   then if mus = [] then Raise (RuntimeError ''torch.cat(): expected a non-empty list'') s8
                        else Return () (s8\<lparr>mu := Some (concat mus)\<rparr>)
                   else Return () s8)))))"

subsection \<open>Predictions of \<open>FunctionalLaplace\<close>\<close>

text \<open>
  The kernels of test points: a tensor of shape \<open>(b, C, C)\<close>, or \<open>(b, C)\<close> with
  \<open>diagonal_kernel\<close>.
\<close>

datatype star_kernel = JointStar "real list list list" | ChannelStar "real list list"

text \<open>
  \<open>_kernel_star\<close>: \<open>torch.einsum('bcp,p,bep->bce', ...)\<close>, or
  \<open>torch.einsum('bcp,bcp->bc', ...)\<close> with \<open>diagonal_kernel\<close>.
\<close>

definition kernel_star ::
  "'x gp_collaborators \<Rightarrow> ('x, 'a) functional_laplace_scheme \<Rightarrow> real list list list \<Rightarrow> 'x \<Rightarrow>
   error + star_kernel" where
  "kernel_star c s Js X =
     bind_err (gp_jacobians c (model_params s) X) (\<lambda>(Js2, _).
     bind_err (gp_prior s) (\<lambda>prior.
       if \<not> list_all (list_all (\<lambda>r. length r = length prior)) (Js @ Js2) \<or>
          length Js \<noteq> length Js2
       then Inl (RuntimeError ''einsum: operands do not broadcast'')
       else if diagonal_kernel s
       then if \<not> list_all (\<lambda>(J, J2). length J = length J2) (zip Js Js2)
            then Inl (RuntimeError ''einsum: operands do not broadcast'')
            else Inr (ChannelStar
                   (map (\<lambda>(J, J2). map (\<lambda>(r, r2). weighted_dot r prior r2) (zip J J2))
                        (zip Js Js2)))
       else Inr (JointStar
              (map (\<lambda>(J, J2). map (\<lambda>r. map (\<lambda>r2. weighted_dot r prior r2) J2) J)
                   (zip Js Js2)))))"

text \<open>
  \<open>_kernel_batch_star\<close>: the kernel of the test points \<open>b\<close> and the training points
  \<open>d\<close> of one batch.  Without \<open>diagonal_kernel\<close> it is
  \<open>torch.einsum('bcp,p,dep->bdce', ...)\<close>: in the block of \<open>b\<close> and \<open>d\<close> the row
  \<open>c\<close> is an output of the test point and the column \<open>e\<close> an output of the training
  point.
\<close>

datatype batch_star =
    JointBatchStar "real list list list list"
  | ChannelBatchStar "real list list list"

definition kernel_batch_star ::
  "'x gp_collaborators \<Rightarrow> ('x, 'a) functional_laplace_scheme \<Rightarrow> real list list list \<Rightarrow> 'x \<Rightarrow>
   error + batch_star" where
  "kernel_batch_star c s Js X =
     bind_err (gp_jacobians c (model_params s) X) (\<lambda>(Js2, _).
     bind_err (gp_prior s) (\<lambda>prior.
       if \<not> list_all (list_all (\<lambda>r. length r = length prior)) (Js @ Js2)
       then Inl (RuntimeError ''einsum: operands do not broadcast'')
       else if diagonal_kernel s
       then (case Js @ Js2 of
               [] \<Rightarrow> Inr (ChannelBatchStar [])
             | J0 # _ \<Rightarrow>
                 if \<not> list_all (\<lambda>J. length J = length J0) (Js @ Js2)
                 then Inl (RuntimeError ''einsum: operands do not broadcast'')
                 else Inr (ChannelBatchStar
                        (map (\<lambda>J. map (\<lambda>J2. map (\<lambda>(r, r2). weighted_dot r prior r2) (zip J J2)) Js2)
                             Js)))
       else Inr (JointBatchStar
              (map (\<lambda>J. map (\<lambda>J2. map (\<lambda>r. map (\<lambda>r2. weighted_dot r prior r2) J2) J) Js2) Js))))"

text \<open>\<open>torch.cat(Ks, dim=1)\<close>.\<close>

definition cat1 :: "'a list list list \<Rightarrow> error + 'a list list" where
  "cat1 Ks =
     (case Ks of
        [] \<Rightarrow> Inl (RuntimeError ''torch.cat(): expected a non-empty list'')
      | K # _ \<Rightarrow>
          if list_all (\<lambda>K'. length K' = length K) Ks
          then Inr (map (\<lambda>b. concat (map (\<lambda>K'. K' ! b) Ks)) [0..<length K])
          else Inl (RuntimeError ''Sizes of tensors must match except in dimension 1''))"

text \<open>The kernels of the batches are all of the kind that \<open>diagonal_kernel\<close> selects.\<close>

fun joint_batches :: "batch_star list \<Rightarrow> error + real list list list list list" where
  "joint_batches [] = Inr []"
| "joint_batches (JointBatchStar K # rest) = bind_err (joint_batches rest) (\<lambda>Ks. Inr (K # Ks))"
| "joint_batches (ChannelBatchStar K # rest) = Inl TypeError"

fun channel_batches :: "batch_star list \<Rightarrow> error + real list list list list" where
  "channel_batches [] = Inr []"
| "channel_batches (ChannelBatchStar K # rest) = bind_err (channel_batches rest) (\<lambda>Ks. Inr (K # Ks))"
| "channel_batches (JointBatchStar K # rest) = Inl TypeError"

text \<open>\<open>torch.einsum('bcm,bcn->bmn', v, v)\<close> for one \<open>b\<close>.\<close>

definition gram :: "real list list \<Rightarrow> real list list" where
  "gram v =
     map (\<lambda>cm. map (\<lambda>cn. sum_list (map (\<lambda>(a, b). a * b) (zip cm cn))) (transpose v))
         (transpose v)"

text \<open>
  \<open>_build_K_star_M\<close>.  Without \<open>diagonal_kernel\<close> the tensor of shape
  \<open>(b, M, C, C)\<close> is reshaped to \<open>(b, M * C, C)\<close>, which joins the training point
  with the row of its block, and the system with the Cholesky factor is solved for each
  test point.
\<close>

definition build_K_star_M ::
  "'x gp_collaborators \<Rightarrow> ('x, 'a) functional_laplace_scheme \<Rightarrow> batch_star list \<Rightarrow>
   error + star_kernel" where
  "build_K_star_M c s K_M_star =
     (if diagonal_kernel s
      then bind_err (channel_batches K_M_star) (\<lambda>Ks.
           bind_err (cat1 Ks) (\<lambda>K.
           bind_err (need (n_outputs s)) (\<lambda>k.
             case Sigma_inv s of
               Some (PerChannel Chol) \<Rightarrow>
                 bind_err (map_err (\<lambda>ch.
                     if length Chol \<le> ch \<or> \<not> list_all (list_all (\<lambda>v. ch < length v)) K
                     then Inl IndexError
                     else map_err (\<lambda>row.
                            bind_err (solve c (Chol ! ch) (map (\<lambda>v. [v ! ch]) row)) (\<lambda>X.
                              Inr (sum_list (map (\<lambda>x. x * x) (concat X))))) K)
                   [0..<k]) (\<lambda>prods.
                   if prods = [] then Inl (RuntimeError ''torch.cat(): expected a non-empty list'')
                   else Inr (ChannelStar (transpose prods)))
             | _ \<Rightarrow> Inl TypeError)))
      else bind_err (joint_batches K_M_star) (\<lambda>Ks.
           bind_err (cat1 Ks) (\<lambda>K.
             case Sigma_inv s of
               Some (Joint Chol) \<Rightarrow>
                 bind_err (map_err (\<lambda>Kb. solve c Chol (concat Kb)) K) (\<lambda>vs.
                   Inr (JointStar (map gram vs)))
             | _ \<Rightarrow> Inl TypeError)))"

text \<open>The difference of two kernels of one shape.\<close>

definition star_sub :: "star_kernel \<Rightarrow> star_kernel \<Rightarrow> error + star_kernel" where
  "star_sub A B =
     (case (A, B) of
        (JointStar U, JointStar V) \<Rightarrow>
          bind_err (map_err (\<lambda>(u, v). msub u v) (zip U V)) (\<lambda>W.
            if length U = length V then Inr (JointStar W)
            else Inl (RuntimeError ''The size of tensor a must match the size of tensor b''))
      | (ChannelStar U, ChannelStar V) \<Rightarrow>
          bind_err (msub U V) (\<lambda>W. Inr (ChannelStar W))
      | _ \<Rightarrow> Inl (RuntimeError ''The size of tensor a must match the size of tensor b''))"

definition gp_posterior_variance ::
  "'x gp_collaborators \<Rightarrow> ('x, 'a) functional_laplace_scheme \<Rightarrow> real list list list \<Rightarrow> 'x \<Rightarrow>
   error + star_kernel" where
  "gp_posterior_variance c s Js_star X_star =
     bind_err (gp_check_fit s) (\<lambda>_.
     bind_err (kernel_star c s Js_star X_star) (\<lambda>K_star.
     bind_err (need (train_loader s)) (\<lambda>loader.
     bind_err (map_err (\<lambda>(X_batch, _). kernel_batch_star c s Js_star X_batch) (batches loader))
       (\<lambda>K_M_star.
     bind_err (build_K_star_M c s K_M_star) (\<lambda>Q. star_sub K_star Q)))))"

text \<open>\<open>gp_posterior\<close>; with \<open>diagonal_kernel\<close> the variances go on a diagonal.\<close>

definition gp_posterior ::
  "'x gp_collaborators \<Rightarrow> ('x, 'a) functional_laplace_scheme \<Rightarrow> 'x \<Rightarrow>
   error + real list list \<times> real list list list" where
  "gp_posterior c s X_star =
     bind_err (gp_jacobians c (model_params s) X_star) (\<lambda>(Js, f_mu).
     bind_err (gp_posterior_variance c s Js X_star) (\<lambda>f_var.
       Inr (f_mu, case f_var of JointStar V \<Rightarrow> V | ChannelStar V \<Rightarrow> map diag_matrix V)))"

text \<open>\<open>FunctionalLaplace.__call__\<close>; the link approximations are those of \<open>links\<close>.\<close>

definition gp_call ::
  "'x gp_collaborators \<Rightarrow> ('x, 's) collaborators \<Rightarrow> ('x, 'a) functional_laplace_scheme \<Rightarrow> 'x \<Rightarrow>
   string \<Rightarrow> string \<Rightarrow> nat \<Rightarrow> error + prediction" where
  "gp_call c links s x pred_type link_approx n_samples =
     (if pred_type \<notin> {''gp''} then Inl (ValueError ''Only gp supported as prediction type.'')
      else bind_err (gp_check_fit s) (\<lambda>_.
           bind_err (gp_posterior c s x) (\<lambda>(f_mu, f_var).
             if likelihood s = ''regression'' then Inr (MeanCov f_mu f_var)
             else bind_err (classification_predictive links f_mu f_var link_approx n_samples)
                    (\<lambda>p. Inr (Probs p)))))"

subsection \<open>Example objects\<close>

text \<open>
  A network with two parameter tensors, of two and of one element, and fitted
  approximations around it: a regression one and a classification one.
\<close>

definition full_la :: "real list list parametric_laplace" where
  "full_la =
     \<lparr>model_params = [[1, 2], [3]], likelihood = ''regression'', prior_precision = [2],
      prior_mean = [0], sigma_noise = 1 / 2, temperature = 1, loss = 3, n_outputs = Some 1,
      n_data = Some 4, map_estimate = [1, 2, 3], posterior_scale = None,
      H = Some [[1, 0, 0], [0, 1, 0], [0, 0, 1]]\<rparr>"

text \<open>
  \<open>full_la\<close> before its fit, and a loader of one batch with a curvature backend that
  returns the loss 3 and the identity matrix for it.
\<close>

definition fresh_la :: "real list list parametric_laplace" where
  "fresh_la = full_la\<lparr>loss := 0, n_outputs := None, n_data := None, H := None\<rparr>"

definition toy_train :: "(nat, real list list) loader" where
  "toy_train = \<lparr>dataset_len = 4, batch_size = 4, batches = [(0, [[1], [2], [3], [4]])]\<rparr>"

definition toy_curv :: "nat \<Rightarrow> real list list \<Rightarrow> nat \<Rightarrow> error + real \<times> real list list" where
  "toy_curv X y N = Inr (3, [[1, 0, 0], [0, 1, 0], [0, 0, 1]])"

definition toy_out_dim :: "nat \<Rightarrow> error + nat" where
  "toy_out_dim X = Inr 1"

definition cls_la :: "real list list parametric_laplace" where
  "cls_la =
     \<lparr>model_params = [[1, 2], [3]], likelihood = ''classification'', prior_precision = [1],
      prior_mean = [0], sigma_noise = 1, temperature = 1, loss = 2, n_outputs = Some 2,
      n_data = Some 4, map_estimate = [1, 2, 3], posterior_scale = None,
      H = Some [[0, 0, 0], [0, 0, 0], [0, 0, 0]]\<rparr>"

text \<open>
  Collaborators for one input: a sampler that returns the same vector \<open>n\<close> times and a
  network with two outputs; \<open>crashing\<close> has a network that fails.
\<close>

definition steady :: "(nat, real list list parametric_laplace) collaborators" where
  "steady =
     \<lparr>forward = (\<lambda>ps X. Inr [[sum_list (concat ps), 0]]),
      jacobians = (\<lambda>ps X. Inr ([[[1, 1, 1], [0, 0, 0]]], [[sum_list (concat ps), 0]])),
      functional_variance = (\<lambda>s Js. Return [[[1, 0], [0, 1]]] s),
      sample = (\<lambda>s n. Return (replicate n [9, 9, 9]) s),
      mc_link = (\<lambda>f_mu f_var n. Inr (map softmax f_mu)),
      bridge_link = (\<lambda>f_mu f_var. Inr (map softmax f_mu))\<rparr>"

definition crashing :: "(nat, real list list parametric_laplace) collaborators" where
  "crashing = steady\<lparr>forward := (\<lambda>ps X. Inl (RuntimeError ''CUDA out of memory''))\<rparr>"

text \<open>
  Validation runs for the grid search: one that fails on the candidate 10 with a
  \<open>RuntimeError\<close>; one whose loss is NaN on the candidate 5; and one where building
  the Dirichlet distribution of the bridge link fails, which is a \<open>ValueError\<close>.
\<close>

definition toy_validation :: "'a base_scheme \<Rightarrow> (score, 'a base_scheme) result" where
  "toy_validation s =
     (if hd (prior_precision s) = 10 then Raise (RuntimeError ''singular matrix'') s
      else Return (Finite ((hd (prior_precision s) - 2)\<^sup>2)) s)"

definition nan_validation :: "'a base_scheme \<Rightarrow> (score, 'a base_scheme) result" where
  "nan_validation s =
     (if hd (prior_precision s) = 5 then Return NaN s
      else Return (Finite ((hd (prior_precision s) - 2)\<^sup>2)) s)"

definition failing_validation :: "'a base_scheme \<Rightarrow> (score, 'a base_scheme) result" where
  "failing_validation s =
     Raise (ValueError ''Expected parameter concentration to satisfy the constraint GreaterThan'') s"

text \<open>
  A functional approximation of a network with one parameter, not yet fitted, with a
  loader of one batch and collaborators for it.
\<close>

definition gp_la :: "nat functional_laplace" where
  "gp_la =
     \<lparr>model_params = [[1]], likelihood = ''regression'', prior_precision = [1],
      prior_mean = [0], sigma_noise = 1, temperature = 3, loss = 0, n_outputs = None,
      n_data = None, map_estimate = [1], posterior_scale = None,
      M = None, diagonal_kernel = False, diagonal_L = True, K_MM = None, Sigma_inv = None,
      train_loader = None, self_batch_size = None, prior_factor_sod = None, mu = None\<rparr>"

text \<open>A solver for systems whose matrix is diagonal with no zero on the diagonal.\<close>

definition diagonal_solve :: "real list list \<Rightarrow> real list list \<Rightarrow> error + real list list" where
  "diagonal_solve A B =
     (if A = diag_matrix (diagonal A) \<and> 0 \<notin> set (diagonal A) \<and> length B = length A
      then Inr (map (\<lambda>(d, row). map (\<lambda>b. b / d) row) (zip (diagonal A) B))
      else Inl (RuntimeError ''singular or non-diagonal matrix''))"

definition toy_gp :: "nat gp_collaborators" where
  "toy_gp =
     \<lparr>gp_out_dim = (\<lambda>X. Inr 1),
      sod_loader = (\<lambda>m l. l),
      gp_quantities = (\<lambda>X y hf. Inr (1, [[[1]]], [[0]], [[[hf]]])),
      gp_jacobians = (\<lambda>ps X. Inr ([[[1]]], [[0]])),
      cholesky = (\<lambda>A. if A = [[4]] then Inr [[2]]
                        else Inl (RuntimeError ''not positive-definite'')),
      solve = diagonal_solve\<rparr>"

definition toy_loader :: "(nat, real list list) loader" where
  "toy_loader = \<lparr>dataset_len = 1, batch_size = 1, batches = [(0, [[2]])]\<rparr>"

text \<open>
  A network with one parameter \<open>w\<close> and two outputs, \<open>(3/5 * (1 - x) * w, x * w)\<close>, at
  \<open>w = 1\<close>; it is linear in \<open>w\<close>.  One training point \<open>x = 0\<close> with target
  \<open>(3/5, 0)\<close>, prior precision \<open>16/25\<close>, noise scale 1.  The curvature backend of the
  functional approximation returns the loss, the Jacobians, the outputs and
  \<open>H_factor\<close> times the identity for each point, as Gaussian regression has it.
\<close>

definition lin_jacobians ::
  "real list list \<Rightarrow> real list \<Rightarrow> error + real list list list \<times> real list list" where
  "lin_jacobians ps X =
     Inr (map (\<lambda>x. [[3 / 5 * (1 - x)], [x]]) X,
          map (\<lambda>x. [3 / 5 * (1 - x) * sum_list (concat ps), x * sum_list (concat ps)]) X)"

definition lin_train :: "(real list, real list list) loader" where
  "lin_train = \<lparr>dataset_len = 1, batch_size = 1, batches = [([0], [[3 / 5, 0]])]\<rparr>"

definition lin_full_la :: "real list list parametric_laplace" where
  "lin_full_la =
     \<lparr>model_params = [[1]], likelihood = ''regression'', prior_precision = [16 / 25],
      prior_mean = [0], sigma_noise = 1, temperature = 1, loss = 0, n_outputs = None,
      n_data = None, map_estimate = [1], posterior_scale = None, H = None\<rparr>"

definition lin_gp_la :: "real list functional_laplace" where
  "lin_gp_la =
     \<lparr>model_params = [[1]], likelihood = ''regression'', prior_precision = [16 / 25],
      prior_mean = [0], sigma_noise = 1, temperature = 1, loss = 0, n_outputs = None,
      n_data = None, map_estimate = [1], posterior_scale = None,
      M = None, diagonal_kernel = False, diagonal_L = True, K_MM = None, Sigma_inv = None,
      train_loader = None, self_batch_size = None, prior_factor_sod = None, mu = None\<rparr>"

definition lin_curv :: "real list \<Rightarrow> real list list \<Rightarrow> nat \<Rightarrow> error + real \<times> real list list" where
  "lin_curv = BackPackGGN_full False (lin_jacobians [[1]]) mse_sum ''regression''"

definition lin_out_dim :: "real list \<Rightarrow> error + nat" where
  "lin_out_dim X = Inr 2"

definition lin_invsqrt :: "real list list \<Rightarrow> error + real list list" where
  "lin_invsqrt A = (if A = [[1]] then Inr [[1]] else Inl (RuntimeError ''not positive-definite''))"

definition lin_full :: "(real list, real list list parametric_laplace) collaborators" where
  "lin_full =
     \<lparr>forward = (\<lambda>ps X. map_sum id snd (lin_jacobians ps X)),
      jacobians = lin_jacobians,
      functional_variance = full_functional_variance lin_invsqrt,
      sample = (\<lambda>s n. Return (replicate n (map_estimate s)) s),
      mc_link = (\<lambda>f_mu f_var n. Inr (map softmax f_mu)),
      bridge_link = (\<lambda>f_mu f_var. Inr (map softmax f_mu))\<rparr>"

definition lin_gp :: "real list gp_collaborators" where
  "lin_gp =
     \<lparr>gp_out_dim = lin_out_dim,
      sod_loader = (\<lambda>m l. l),
      gp_quantities = (\<lambda>X y hf.
        bind_err (lin_jacobians [[1]] X) (\<lambda>(Js, f).
          Inr (1 / 2 * mse_sum f y, Js, f, map (\<lambda>x. [[hf, 0], [0, hf]]) X))),
      gp_jacobians = lin_jacobians,
      cholesky = (\<lambda>A. if A = [[25 / 16, 0], [0, 1]] then Inr [[5 / 4, 0], [0, 1]]
                        else Inl (RuntimeError ''not positive-definite'')),
      solve = diagonal_solve\<rparr>"

text \<open>The two approximations as their fits on \<open>lin_train\<close> leave them.\<close>

definition lin_full_fitted :: "real list list parametric_laplace" where
  "lin_full_fitted = lin_full_la\<lparr>n_outputs := Some 2, n_data := Some 1, H := Some [[9 / 25]]\<rparr>"

definition lin_gp_fitted :: "real list functional_laplace" where
  "lin_gp_fitted =
     lin_gp_la\<lparr>n_outputs := Some 2, n_data := Some 1, M := Some 1,
       K_MM := Some (Joint [[9 / 16, 0], [0, 0]]),
       Sigma_inv := Some (Joint [[5 / 4, 0], [0, 1]]),
       train_loader := Some lin_train, self_batch_size := Some 1,
       prior_factor_sod := Some 1, mu := Some [[3 / 5, 0]]\<rparr>"

section \<open>Properties\<close>

subsection \<open>Arithmetic of tensors\<close>

lemma diag_matrix_Cons:
  "diag_matrix (x # v) = (x # replicate (length v) 0) # map (\<lambda>r. 0 # r) (diag_matrix v)"
proof -
  have upt: "[0..<Suc (length v)] = 0 # map Suc [0..<length v]"
    by (simp add: upt_conv_Cons map_Suc_upt del: upt_Suc)
  have row0: "map (\<lambda>j. if 0 = j then (x # v) ! 0 else 0) (0 # map Suc [0..<length v])
      = x # replicate (length v) 0"
    by (simp add: comp_def map_replicate_const)
  show ?thesis
    unfolding diag_matrix_def length_Cons upt
    by (simp add: comp_def map_replicate_const)
qed

lemma sum_list_zero: "(\<And>x. x \<in> set xs \<Longrightarrow> f x = (0::real)) \<Longrightarrow> sum_list (map f xs) = 0"
  by (induction xs) auto

lemma det_diag_matrix: "det (diag_matrix v) = prod_list v"
proof (induction v)
  case Nil
  then show ?case by (simp add: diag_matrix_def)
next
  case (Cons x v)
  let ?D = "diag_matrix v"
  let ?r = "x # replicate (length v) 0"
  let ?f = "\<lambda>j. (- 1) ^ j * ?r ! j * det (map (del_col j) (map (\<lambda>r. 0 # r) ?D))"
  have upt: "[0..<length ?r] = 0 # [Suc 0..<Suc (length v)]"
    by (simp add: upt_conv_Cons del: upt_Suc)
  have rest: "sum_list (map ?f [Suc 0..<Suc (length v)]) = 0"
    by (rule sum_list_zero) (auto simp: nth_Cons' simp del: upt_Suc)
  have minor: "map (del_col 0) (map (\<lambda>r. 0 # r) ?D) = ?D"
    by (simp add: del_col_def comp_def)
  have "det (diag_matrix (x # v)) = sum_list (map ?f [0..<length ?r])"
    by (simp only: diag_matrix_Cons det.simps)
  also have "\<dots> = ?f 0 + sum_list (map ?f [Suc 0..<Suc (length v)])"
    by (simp only: upt list.map sum_list.Cons)
  also have "\<dots> = x * det ?D"
    using rest minor by simp
  finally show ?case using Cons by simp
qed

lemma prod_list_positive: "\<forall>x \<in> set v. (0::real) < x \<Longrightarrow> 0 < prod_list v"
  by (induction v) auto

lemma ln_prod_list:
  "\<forall>x \<in> set v. (0::real) < x \<Longrightarrow> ln (prod_list v) = sum_list (map ln v)"
proof (induction v)
  case Nil
  then show ?case by simp
next
  case (Cons x v)
  then have "0 < x" "0 < prod_list v" by (auto intro: prod_list_positive)
  then show ?case using Cons by (simp add: ln_mult)
qed

lemma logdet_diag_matrix:
  "\<forall>x \<in> set v. 0 < x \<Longrightarrow> logdet (diag_matrix v) = sum_list (map ln v)"
  by (simp add: logdet_def det_diag_matrix ln_prod_list)

lemma length_per_layer:
  "length v = length ps \<Longrightarrow>
   length (concat (map (\<lambda>(p, n). replicate n p) (zip v (map length ps)))) = length (concat ps)"
  by (induction v ps rule: list_induct2) auto

lemma set_per_layer:
  "set (concat (map (\<lambda>(p, n). replicate n p) (zip v ns))) \<subseteq> set v"
  by (induction v ns rule: list_induct2') auto

lemma prior_precision_diag_valid:
  assumes "length (prior_precision s) \<in> {1, n_layers s, n_params s}"
  shows "\<exists>p. prior_precision_diag s = Inr p \<and> length p = n_params s \<and> set p \<subseteq> set (prior_precision s)"
proof -
  have "length (concat (map (\<lambda>(p, n). replicate n p)
           (zip (prior_precision s) (map length (model_params s))))) = n_params s"
    if "length (prior_precision s) = n_layers s"
    using that length_per_layer[of "prior_precision s" "model_params s"]
    by (simp add: n_layers_def n_params_def parameters_to_vector_def)
  moreover have "set (replicate (n_params s) (hd (prior_precision s))) \<subseteq> set (prior_precision s)"
    if "length (prior_precision s) = 1"
    using that by (cases "prior_precision s") auto
  ultimately show ?thesis
    using assms set_per_layer[of "prior_precision s" "map length (model_params s)"]
    by (auto simp: prior_precision_diag_def parameters_per_layer_def)
qed

subsection \<open>The example objects are reachable\<close>

lemma fresh_la_constructed:
  "ParametricLaplace_init set_prior_precision [[1, 2], [3]] ''regression''
     (PyFloat (1 / 2)) (PyFloat 2) (PyFloat 0) 1 = Inr fresh_la"
  by (simp add: ParametricLaplace_init_def BaseLaplace_init_def blank_def set_prior_precision_def
      set_prior_mean_def differs_from_one_def set_sigma_noise_def parameters_to_vector_def
      fresh_la_def full_la_def base.defs)

lemma full_la_fitted:
  "fit full_init_H toy_curv madd toy_out_dim fresh_la toy_train = Return () full_la"
  by (simp add: fit_def fresh_la_def full_la_def toy_train_def toy_curv_def toy_out_dim_def
      full_init_H_def zeros_def n_params_def parameters_to_vector_def madd_def Let_def
      eval_nat_numeral)


lemma gp_la_constructed:
  "FunctionalLaplace_init [[1]] ''regression'' None (PyFloat 1) (PyFloat 1) (PyFloat 0) 3 False True
     = Inr gp_la"
  by (simp add: FunctionalLaplace_init_def BaseLaplace_init_def blank_def set_prior_precision_def
      set_prior_mean_def differs_from_one_def set_sigma_noise_def parameters_to_vector_def
      gp_la_def base.defs)

lemma lin_objects_constructed:
  "ParametricLaplace_init set_prior_precision [[1]] ''regression''
     (PyFloat 1) (PyFloat (16 / 25)) (PyFloat 0) 1 = Inr lin_full_la \<and>
   FunctionalLaplace_init [[1]] ''regression'' None (PyFloat 1) (PyFloat (16 / 25)) (PyFloat 0) 1
     False True = Inr lin_gp_la"
  by (simp add: ParametricLaplace_init_def FunctionalLaplace_init_def BaseLaplace_init_def
      blank_def set_prior_precision_def set_prior_mean_def differs_from_one_def
      set_sigma_noise_def parameters_to_vector_def lin_full_la_def lin_gp_la_def base.defs)

subsection \<open>The functional and the dense predictive\<close>

lemma lin_full_fit:
  "fit full_init_H lin_curv madd lin_out_dim lin_full_la lin_train = Return () lin_full_fitted"
  by (simp add: fit_def lin_full_fitted_def lin_full_la_def lin_train_def lin_curv_def lin_out_dim_def
      BackPackGGN_full_def lin_jacobians_def get_full_ggn_def backend_factor_def mse_sum_def
      bind_err_def full_init_H_def zeros_def n_params_def parameters_to_vector_def madd_def
      Let_def power2_eq_square)

lemma lin_gp_fit:
  "gp_fit lin_gp lin_gp_la lin_train = Return () lin_gp_fitted"
  by (simp add: gp_fit_def lin_gp_fitted_def lin_gp_def lin_gp_la_def lin_train_def lin_out_dim_def
      lin_jacobians_def
      mse_sum_def rbind_def lift_def Let_def init_K_MM_def init_Sigma_inv_def zeros_def
      broadcast2_def H_factor_def mu_batch_def madd_def msub_def bind_err_def kernel_batch_def
      gp_prior_def need_def prior_precision_diag_def n_params_def parameters_to_vector_def
      weighted_dot_def store_K_batch_def store_block_def set_block_def build_Sigma_inv_def
      build_L_inv_def diagonal_def diag_matrix_def power2_eq_square upt_rec)

lemma lin_dense_precision:
  "full_posterior_precision lin_full_fitted = Inr [[1]]"
  by (simp add: full_posterior_precision_def lin_full_fitted_def lin_full_la_def check_fit_def
      bind_err_def prior_precision_diag_def n_params_def parameters_to_vector_def madd_def
      smul_def diag_matrix_def H_factor_def)

lemma lin_dense_variance:
  "full_functional_variance lin_invsqrt lin_full_fitted [[[0], [1]]]
     = Return [[[0, 0], [0, 1]]] (lin_full_fitted\<lparr>posterior_scale := Some [[1]]\<rparr>)"
proof -
  have ps: "posterior_scale lin_full_fitted = None"
    by (simp add: lin_full_fitted_def lin_full_la_def)
  have scale: "full_posterior_scale lin_invsqrt lin_full_fitted
      = Return [[1]] (lin_full_fitted\<lparr>posterior_scale := Some [[1]]\<rparr>)"
    by (simp add: full_posterior_scale_def ps lin_dense_precision bind_err_def lin_invsqrt_def
        rbind_def lift_def)
  have cov: "full_posterior_covariance lin_invsqrt lin_full_fitted
      = Return [[1]] (lin_full_fitted\<lparr>posterior_scale := Some [[1]]\<rparr>)"
    by (simp add: full_posterior_covariance_def scale rbind_def lift_def mmul_def)
  show ?thesis
    by (simp add: full_functional_variance_def cov rbind_def quad_form_def)
qed

lemma lin_dense_prediction:
  "call lin_full lin_full_fitted [1] ''glm'' ''probit'' 100
     = Return (MeanCov [[0, 1]] [[[0, 0], [0, 1]]])
         (lin_full_fitted\<lparr>posterior_scale := Some [[1]]\<rparr>)"
proof -
  have fitted: "check_fit lin_full_fitted = Inr [[9 / 25]]"
    by (simp add: check_fit_def lin_full_fitted_def)
  have jac: "jacobians lin_full (model_params lin_full_fitted) [1] = Inr ([[[0], [1]]], [[0, 1]])"
    by (simp add: lin_full_def lin_jacobians_def lin_full_fitted_def lin_full_la_def)
  have fv: "functional_variance lin_full = full_functional_variance lin_invsqrt"
    by (simp add: lin_full_def)
  have glm: "glm_predictive_distribution lin_full model_params lin_full_fitted [1]
      = Return ([[0, 1]], [[[0, 0], [0, 1]]]) (lin_full_fitted\<lparr>posterior_scale := Some [[1]]\<rparr>)"
    by (simp add: glm_predictive_distribution_def jac fv lin_dense_variance rbind_def lift_def)
  have lik: "likelihood (lin_full_fitted\<lparr>posterior_scale := Some [[1]]\<rparr>) = ''regression''"
    by (simp add: lin_full_fitted_def lin_full_la_def)
  show ?thesis
    by (simp add: call_def fitted glm lik rbind_def lift_def)
qed

lemma lin_gp_variance:
  "gp_posterior_variance lin_gp lin_gp_fitted [[[0], [1]]] [1]
     = Inr (JointStar [[[- (225 / 256), 0], [0, 25 / 16]]])"
proof -
  have fitted: "gp_check_fit lin_gp_fitted = Inr ()"
    by (simp add: gp_check_fit_def lin_gp_fitted_def)
  have prior: "gp_prior lin_gp_fitted = Inr [25 / 16]"
    by (simp add: gp_prior_def lin_gp_fitted_def lin_gp_la_def prior_precision_diag_def
        n_params_def parameters_to_vector_def need_def bind_err_def)
  have jt: "gp_jacobians lin_gp (model_params lin_gp_fitted) [1] = Inr ([[[0], [1]]], [[0, 1]])"
    and jm: "gp_jacobians lin_gp (model_params lin_gp_fitted) [0] = Inr ([[[3 / 5], [0]]], [[3 / 5, 0]])"
    by (simp_all add: lin_gp_def lin_jacobians_def lin_gp_fitted_def lin_gp_la_def)
  have dk: "\<not> diagonal_kernel lin_gp_fitted"
    by (simp add: lin_gp_fitted_def lin_gp_la_def)
  have kss: "kernel_star lin_gp lin_gp_fitted [[[0], [1]]] [1] = Inr (JointStar [[[0, 0], [0, 25 / 16]]])"
    by (simp add: kernel_star_def jt prior dk bind_err_def weighted_dot_def)
  have kms: "kernel_batch_star lin_gp lin_gp_fitted [[[0], [1]]] [0]
      = Inr (JointBatchStar [[[[0, 0], [15 / 16, 0]]]])"
    by (simp add: kernel_batch_star_def jm prior dk bind_err_def weighted_dot_def)
  have tl: "train_loader lin_gp_fitted = Some lin_train" "batches lin_train = [([0], [[3 / 5, 0]])]"
    by (simp_all add: lin_gp_fitted_def lin_train_def)
  have sig: "Sigma_inv lin_gp_fitted = Some (Joint [[5 / 4, 0], [0, 1]])"
    by (simp add: lin_gp_fitted_def)
  have sol: "solve lin_gp [[5 / 4, 0], [0, 1]] [[0, 0], [15 / 16, 0]] = Inr [[0, 0], [15 / 16, 0]]"
    by (simp add: lin_gp_def diagonal_solve_def diagonal_def diag_matrix_def upt_rec)
  have gr: "gram [[0, 0], [15 / 16, 0]] = [[225 / 256, 0], [0, 0]]"
    by (simp add: gram_def)
  have q: "build_K_star_M lin_gp lin_gp_fitted [JointBatchStar [[[[0, 0], [15 / 16, 0]]]]]
      = Inr (JointStar [[[225 / 256, 0], [0, 0]]])"
    by (simp add: build_K_star_M_def dk sig bind_err_def cat1_def sol gr)
  show ?thesis
    by (simp add: gp_posterior_variance_def fitted kss tl need_def kms q bind_err_def star_sub_def
        msub_def)
qed

lemma lin_gp_prediction:
  "gp_call lin_gp lin_full lin_gp_fitted [1] ''gp'' ''probit'' 100
     = Inr (MeanCov [[0, 1]] [[[- (225 / 256), 0], [0, 25 / 16]]])"
proof -
  have fitted: "gp_check_fit lin_gp_fitted = Inr ()"
    by (simp add: gp_check_fit_def lin_gp_fitted_def)
  have jt: "gp_jacobians lin_gp (model_params lin_gp_fitted) [1] = Inr ([[[0], [1]]], [[0, 1]])"
    by (simp add: lin_gp_def lin_jacobians_def lin_gp_fitted_def lin_gp_la_def)
  have post: "gp_posterior lin_gp lin_gp_fitted [1]
      = Inr ([[0, 1]], [[[- (225 / 256), 0], [0, 25 / 16]]])"
    by (simp add: gp_posterior_def jt lin_gp_variance bind_err_def)
  have lik: "likelihood lin_gp_fitted = ''regression''"
    by (simp add: lin_gp_fitted_def lin_gp_la_def)
  show ?thesis
    by (simp add: gp_call_def fitted post lik bind_err_def)
qed

lemma lin_gp_variance_with_blocks_transposed:
  "solve lin_gp [[5 / 4, 0], [0, 1]] (transpose [[0, 0], [15 / 16, 0]]) = Inr [[0, 3 / 4], [0, 0]] \<and>
   gram [[0, 3 / 4], [0, 0]] = [[0, 0], [0, 9 / 16]] \<and>
   star_sub (JointStar [[[0, 0], [0, 25 / 16]]]) (JointStar [[[0, 0], [0, 9 / 16]]])
     = Inr (JointStar [[[0, 0], [0, 1]]])"
  by (simp add: lin_gp_def diagonal_solve_def diagonal_def diag_matrix_def upt_rec gram_def
      star_sub_def msub_def bind_err_def)

text \<open>
  Claim C1, at an input where the code departs from it.  For the linear network
  with two outputs, fitted on its one training point with \<open>M = N = 1\<close> and
  \<open>diagonal_kernel = False\<close>, the two approximations predict the same mean \<open>(0, 1)\<close>
  at the test point \<open>x = 1\<close>, but \<open>FullLaplace\<close> has the variances \<open>0\<close> and \<open>1\<close>
  where \<open>FunctionalLaplace\<close> has \<open>-225/256\<close> and \<open>25/16\<close>.  The reshape in
  \<open>_build_K_star_M\<close> takes each block of the kernel between test and training points
  with its two output indices exchanged; with the blocks transposed the variance is that
  of \<open>FullLaplace\<close> (\<open>lin_gp_variance_with_blocks_transposed\<close>).
\<close>
theorem gp_variance_differs_from_dense:
  "fit full_init_H lin_curv madd lin_out_dim lin_full_la lin_train = Return () lin_full_fitted \<and>
   gp_fit lin_gp lin_gp_la lin_train = Return () lin_gp_fitted \<and>
   call lin_full lin_full_fitted [1] ''glm'' ''probit'' 100
     = Return (MeanCov [[0, 1]] [[[0, 0], [0, 1]]])
         (lin_full_fitted\<lparr>posterior_scale := Some [[1]]\<rparr>) \<and>
   gp_call lin_gp lin_full lin_gp_fitted [1] ''gp'' ''probit'' 100
     = Inr (MeanCov [[0, 1]] [[[- (225 / 256), 0], [0, 25 / 16]]])"
  using lin_full_fit lin_gp_fit lin_dense_prediction lin_gp_prediction by blast

subsection \<open>Prior precision: setting and expanding\<close>

lemma length_le_concat:
  "\<forall>l \<in> set ps. l \<noteq> [] \<Longrightarrow> length ps \<le> length (concat ps)"
proof (induction ps)
  case Nil
  then show ?case by simp
next
  case (Cons p ps)
  then have "1 \<le> length p" by (cases p) auto
  with Cons show ?case by auto
qed

lemma all_singletons:
  "\<forall>l \<in> set ps. l \<noteq> [] \<Longrightarrow> length (concat ps) = length ps \<Longrightarrow> \<forall>l \<in> set ps. length l = 1"
proof (induction ps)
  case Nil
  then show ?case by simp
next
  case (Cons p ps)
  have p1: "1 \<le> length p" using Cons.prems(1) by (cases p) auto
  have le: "length ps \<le> length (concat ps)" using Cons.prems(1) by (intro length_le_concat) auto
  from Cons.prems(2) have "length p + length (concat ps) = Suc (length ps)" by simp
  with p1 le have "length p = 1" "length (concat ps) = length ps" by linarith+
  with Cons show ?case by auto
qed

lemma per_layer_singletons:
  "length v = length ps \<Longrightarrow> \<forall>l \<in> set ps. length l = 1 \<Longrightarrow>
   concat (map (\<lambda>(p, n). replicate n p) (zip v (map length ps))) = v"
  by (induction v ps rule: list_induct2) auto

text \<open>
  Claim C8.  On a model whose parameter tensors are not empty, a one-dimensional prior
  precision of length 1, \<open>n_layers\<close> or \<open>n_params\<close> is stored by the setter, and
  \<open>prior_precision_diag\<close> then has length \<open>n_params\<close>: a single value is repeated
  \<open>n_params\<close> times, per-layer values are repeated over the parameter count of their
  layer, and a per-parameter vector comes back unchanged.  A scalar, given as a number or
  as a zero-dimensional tensor, is repeated \<open>n_params\<close> times.  A vector of any other
  length makes the setter raise \<open>ValueError\<close>, and so does expanding a stored vector of
  such a length.
\<close>
theorem prior_precision_roundtrip:
  assumes nonempty: "\<forall>l \<in> set (model_params s). l \<noteq> []"
  shows "(length v \<in> {1, n_layers s, n_params s} \<longrightarrow>
           (\<exists>s' d. set_prior_precision s (Tensor1 v) = Return () s' \<and>
              prior_precision_diag s' = Inr d \<and> length d = n_params s \<and>
              (length v = 1 \<longrightarrow> d = replicate (n_params s) (hd v)) \<and>
              (length v = n_layers s \<longrightarrow>
                 d = concat (map (\<lambda>(p, l). replicate (length l) p) (zip v (model_params s)))) \<and>
              (length v = n_params s \<longrightarrow> d = v))) \<and>
         (\<forall>x. \<exists>s'. set_prior_precision s (PyFloat x) = Return () s' \<and>
              prior_precision_diag s' = Inr (replicate (n_params s) x)) \<and>
         (\<forall>x. \<exists>s'. set_prior_precision s (Tensor0 x) = Return () s' \<and>
              prior_precision_diag s' = Inr (replicate (n_params s) x)) \<and>
         (length v \<notin> {1, n_layers s, n_params s} \<longrightarrow>
           (\<exists>msg s'. set_prior_precision s (Tensor1 v) = Raise (ValueError msg) s') \<and>
           (prior_precision s = v \<longrightarrow> (\<exists>msg. prior_precision_diag s = Inl (ValueError msg))))"
proof -
  let ?P = "n_params s" and ?L = "n_layers s"
  have np: "\<And>u. n_params (s\<lparr>posterior_scale := None, prior_precision := u\<rparr>) = ?P"
    and nl: "\<And>u. n_layers (s\<lparr>posterior_scale := None, prior_precision := u\<rparr>) = ?L"
    and ppl: "\<And>u. parameters_per_layer (s\<lparr>posterior_scale := None, prior_precision := u\<rparr>)
                = map length (model_params s)"
    by (simp_all add: n_params_def n_layers_def parameters_per_layer_def)
  have zip_eq: "map (\<lambda>(p, l). replicate (length l) p) (zip v (model_params s))
      = map (\<lambda>(p, n). replicate n p) (zip v (map length (model_params s)))"
    by (simp add: zip_map2 case_prod_unfold)
  have accepted: "\<exists>s' d. set_prior_precision s (Tensor1 v) = Return () s' \<and>
              prior_precision_diag s' = Inr d \<and> length d = ?P \<and>
              (length v = 1 \<longrightarrow> d = replicate ?P (hd v)) \<and>
              (length v = ?L \<longrightarrow>
                 d = concat (map (\<lambda>(p, l). replicate (length l) p) (zip v (model_params s)))) \<and>
              (length v = ?P \<longrightarrow> d = v)"
    if acc: "length v \<in> {1, ?L, ?P}"
  proof -
    let ?s' = "s\<lparr>posterior_scale := None, prior_precision := v\<rparr>"
    have set: "set_prior_precision s (Tensor1 v) = Return () ?s'"
      using acc by (auto simp: set_prior_precision_def Let_def n_params_def n_layers_def)
    have "length v = 1 \<or> (length v \<noteq> 1 \<and> length v = ?P)
        \<or> (length v \<noteq> 1 \<and> length v \<noteq> ?P \<and> length v = ?L)"
      using acc by auto
    then consider (one) "length v = 1" | (diag) "length v \<noteq> 1" "length v = ?P"
      | (layer) "length v \<noteq> 1" "length v \<noteq> ?P" "length v = ?L"
      by blast
    then show ?thesis
    proof cases
      case one
      then obtain a where v: "v = [a]" by (cases v) auto
      have d: "prior_precision_diag ?s' = Inr (replicate ?P a)"
        using v by (simp add: prior_precision_diag_def np)
      have h1: "length v = ?L \<longrightarrow> replicate ?P a
              = concat (map (\<lambda>(p, l). replicate (length l) p) (zip v (model_params s)))"
      proof
        assume "length v = ?L"
        then obtain l where "model_params s = [l]"
          using v by (cases "model_params s") (auto simp: n_layers_def)
        then show "replicate ?P a
              = concat (map (\<lambda>(p, l). replicate (length l) p) (zip v (model_params s)))"
          using v by (simp add: n_params_def parameters_to_vector_def)
      qed
      have h2: "length v = ?P \<longrightarrow> replicate ?P a = v"
      proof
        assume "length v = ?P"
        then have "?P = 1" using v by simp
        then show "replicate ?P a = v" using v by simp
      qed
      have h0: "length v = 1 \<longrightarrow> replicate ?P a = replicate ?P (hd v)" using v by simp
      have len: "length (replicate ?P a) = ?P" by simp
      show ?thesis using set d len h0 h1 h2 by blast
    next
      case diag
      have d: "prior_precision_diag ?s' = Inr v"
        using diag by (simp add: prior_precision_diag_def np)
      have "?L = ?P \<longrightarrow> v
              = concat (map (\<lambda>(p, l). replicate (length l) p) (zip v (model_params s)))"
      proof
        assume eq: "?L = ?P"
        then have "\<forall>l \<in> set (model_params s). length l = 1"
          using all_singletons[OF nonempty] by (simp add: n_params_def n_layers_def parameters_to_vector_def)
        moreover have "length v = length (model_params s)" using diag eq by (simp add: n_layers_def)
        ultimately show "v = concat (map (\<lambda>(p, l). replicate (length l) p) (zip v (model_params s)))"
          using per_layer_singletons[of v "model_params s"] zip_eq by simp
      qed
      then show ?thesis using set d diag by auto
    next
      case layer
      have lv: "length v = length (model_params s)" using layer by (simp add: n_layers_def)
      have d: "prior_precision_diag ?s'
          = Inr (concat (map (\<lambda>(p, l). replicate (length l) p) (zip v (model_params s))))"
        using layer by (simp add: prior_precision_diag_def np nl ppl zip_eq)
      have "length (concat (map (\<lambda>(p, l). replicate (length l) p) (zip v (model_params s)))) = ?P"
        using length_per_layer[OF lv] zip_eq by (simp add: n_params_def parameters_to_vector_def)
      then show ?thesis using set d layer by auto
    qed
  qed
  have scalar: "\<exists>s'. set_prior_precision s (PyFloat x) = Return () s' \<and>
              prior_precision_diag s' = Inr (replicate ?P x)" for x
    by (simp add: set_prior_precision_def prior_precision_diag_def np)
  have scalar0: "\<exists>s'. set_prior_precision s (Tensor0 x) = Return () s' \<and>
              prior_precision_diag s' = Inr (replicate ?P x)" for x
    by (simp add: set_prior_precision_def prior_precision_diag_def np)
  have rejected: "(\<exists>msg s'. set_prior_precision s (Tensor1 v) = Raise (ValueError msg) s') \<and>
           (prior_precision s = v \<longrightarrow> (\<exists>msg. prior_precision_diag s = Inl (ValueError msg)))"
    if "length v \<notin> {1, ?L, ?P}"
    using that by (auto simp: set_prior_precision_def prior_precision_diag_def Let_def n_params_def n_layers_def)
  show ?thesis using accepted scalar scalar0 rejected by blast
qed


theorem prior_precision_roundtrip_witness:
  "set_prior_precision cls_la (Tensor1 [5, 7])
     = Return () (cls_la\<lparr>posterior_scale := None, prior_precision := [5, 7]\<rparr>) \<and>
   prior_precision_diag (cls_la\<lparr>posterior_scale := None, prior_precision := [5, 7]\<rparr>)
     = Inr [5, 5, 7] \<and>
   set_prior_precision cls_la (Tensor1 [5, 7, 8, 9])
     = Raise (ValueError ''Length of prior precision does not align with architecture.'')
         (cls_la\<lparr>posterior_scale := None\<rparr>)"
proof -
  have ne: "\<forall>l \<in> set (model_params cls_la). l \<noteq> []" by (simp add: cls_la_def)
  have nl: "n_layers cls_la = 2" and np: "n_params cls_la = 3"
    by (simp_all add: n_layers_def n_params_def parameters_to_vector_def cls_la_def)
  have mp: "model_params cls_la = [[1, 2], [3]]" by (simp add: cls_la_def)
  note t = prior_precision_roundtrip[OF ne, of "[5, 7]"]
  have acc: "length [5, 7 :: real] \<in> {1, n_layers cls_la, n_params cls_la}" using nl by simp
  from t acc obtain s' d where
    s': "set_prior_precision cls_la (Tensor1 [5, 7]) = Return () s'"
    and d: "prior_precision_diag s' = Inr d"
    and layer: "length [5, 7 :: real] = n_layers cls_la \<longrightarrow>
        d = concat (map (\<lambda>(p, l). replicate (length l) p) (zip [5, 7] (model_params cls_la)))"
    by blast
  have set: "set_prior_precision cls_la (Tensor1 [5, 7])
      = Return () (cls_la\<lparr>posterior_scale := None, prior_precision := [5, 7]\<rparr>)"
    by (simp add: set_prior_precision_def n_layers_def n_params_def parameters_to_vector_def
        cls_la_def)
  have "d = [5, 5, 7]" using layer nl mp by (simp add: eval_nat_numeral)
  then have diag: "prior_precision_diag (cls_la\<lparr>posterior_scale := None, prior_precision := [5, 7]\<rparr>)
      = Inr [5, 5, 7]"
    using s' d set by simp
  note t2 = prior_precision_roundtrip[OF ne, of "[5, 7, 8, 9]"]
  have rej: "length [5, 7, 8, 9 :: real] \<notin> {1, n_layers cls_la, n_params cls_la}"
    using nl np by simp
  from t2 rej obtain msg s'' where
    "set_prior_precision cls_la (Tensor1 [5, 7, 8, 9]) = Raise (ValueError msg) s''" by blast
  moreover have "set_prior_precision cls_la (Tensor1 [5, 7, 8, 9])
     = Raise (ValueError ''Length of prior precision does not align with architecture.'')
         (cls_la\<lparr>posterior_scale := None\<rparr>)"
    by (simp add: set_prior_precision_def n_layers_def n_params_def parameters_to_vector_def
        cls_la_def)
  ultimately show ?thesis using set diag by blast
qed

subsection \<open>The prior precision of \<open>KronLaplace\<close>\<close>

text \<open>
  Claim C10.  The setter of \<open>KronLaplace\<close> raises \<open>ValueError\<close> for a prior precision
  of length \<open>n_params\<close> when \<open>n_params\<close> is neither 1 nor \<open>n_layers\<close>, a vector that
  the setter of the base class stores; it accepts the lengths 1 and \<open>n_layers\<close>.
\<close>
theorem kron_rejects_per_parameter:
  assumes "length v = n_params s" "n_params s \<noteq> 1" "n_params s \<noteq> n_layers s"
  shows "kron_set_prior_precision s (Tensor1 v)
           = Raise (ValueError ''Prior precision for Kron either scalar or per-layer.'')
               (s\<lparr>posterior_scale := None, prior_precision := v\<rparr>) \<and>
         set_prior_precision s (Tensor1 v)
           = Return () (s\<lparr>posterior_scale := None, prior_precision := v\<rparr>) \<and>
         (\<forall>u. length u \<in> {1, n_layers s} \<longrightarrow>
            kron_set_prior_precision s (Tensor1 u)
              = Return () (s\<lparr>posterior_scale := None, prior_precision := u\<rparr>))"
  using assms
  by (auto simp: kron_set_prior_precision_def set_prior_precision_def Let_def n_params_def n_layers_def)

theorem kron_rejects_per_parameter_witness:
  "length [5, 6, 7 :: real] = n_params cls_la \<and> n_params cls_la \<noteq> 1 \<and> n_params cls_la \<noteq> n_layers cls_la \<and>
   kron_set_prior_precision cls_la (Tensor1 [5, 6, 7])
     = Raise (ValueError ''Prior precision for Kron either scalar or per-layer.'')
         (cls_la\<lparr>posterior_scale := None, prior_precision := [5, 6, 7]\<rparr>) \<and>
   set_prior_precision cls_la (Tensor1 [5, 6, 7])
     = Return () (cls_la\<lparr>posterior_scale := None, prior_precision := [5, 6, 7]\<rparr>) \<and>
   kron_set_prior_precision cls_la (Tensor1 [5, 6])
     = Return () (cls_la\<lparr>posterior_scale := None, prior_precision := [5, 6]\<rparr>)"
proof -
  have h: "length [5, 6, 7 :: real] = n_params cls_la" "n_params cls_la \<noteq> 1"
    "n_params cls_la \<noteq> n_layers cls_la"
    by (simp_all add: n_params_def n_layers_def parameters_to_vector_def cls_la_def)
  have l: "length [5, 6 :: real] \<in> {1, n_layers cls_la}"
    by (simp add: n_layers_def cls_la_def)
  show ?thesis using h l kron_rejects_per_parameter[OF h] by blast
qed

subsection \<open>Observation noise of a classification model\<close>

lemma init_rejects_noise_for_classification:
  assumes "differs_from_one sigma = Inr True"
  shows "\<exists>e. BaseLaplace_init setter model ''classification'' sigma prior_prec prior_mu temp = Inl e"
  using assms by (simp add: BaseLaplace_init_def split: result.splits)

lemma log_marginal_likelihood_rejects_noise_for_classification:
  assumes "H s \<noteq> None" "likelihood s \<noteq> ''regression''"
  shows "log_marginal_likelihood setter ldpp s None (Some v)
           = Raise (ValueError ''Can only change sigma_noise for regression.'') s"
  using assms by (auto simp: log_marginal_likelihood_def rbind_def lift_def check_fit_def)

lemma set_sigma_noise_any_likelihood:
  "set_sigma_noise s (PyFloat x) = Return () (s\<lparr>posterior_scale := None, sigma_noise := x\<rparr>)"
  by (simp add: set_sigma_noise_def)

text \<open>
  Claim C7, at the input where the code departs from it: on the classification
  approximation \<open>cls_la\<close> the setter of \<open>sigma_noise\<close> stores the value 2 and returns,
  and \<open>H_factor\<close> changes from 1 to 1/4.
\<close>
theorem sigma_noise_setter_unguarded:
  "likelihood cls_la = ''classification'' \<and>
   set_sigma_noise cls_la (PyFloat 2) = Return () (cls_la\<lparr>sigma_noise := 2\<rparr>) \<and>
   H_factor cls_la = 1 \<and> H_factor (cls_la\<lparr>sigma_noise := 2\<rparr>) = 1 / 4"
  by (simp add: set_sigma_noise_def cls_la_def H_factor_def)

subsection \<open>Posterior precision of \<open>FullLaplace\<close>\<close>

lemma H_factor_eq: "H_factor s = 1 / ((sigma_noise s)\<^sup>2 * temperature s)"
  by (simp add: H_factor_def)

lemma madd_same_shape:
  assumes "length A = n" "\<forall>r \<in> set A. length r = m" "length B = n" "\<forall>r \<in> set B. length r = m"
  shows "\<exists>C. madd A B = Inr C \<and> length C = n \<and>
     (\<forall>i < n. length (C ! i) = m \<and> (\<forall>j < m. C ! i ! j = A ! i ! j + B ! i ! j))"
proof -
  have "map length A = replicate n m" "map length B = replicate n m"
    using assms by (auto simp: map_replicate_const[symmetric] intro!: nth_equalityI)
  then have eq: "map length A = map length B" by simp
  let ?C = "map (\<lambda>(r, r'). map (\<lambda>(a, b). a + b) (zip r r')) (zip A B)"
  have "madd A B = Inr ?C" using eq by (simp add: madd_def)
  moreover have "length ?C = n" using assms by simp
  moreover have "length (?C ! i) = m \<and> (\<forall>j < m. ?C ! i ! j = A ! i ! j + B ! i ! j)" if "i < n" for i
    using that assms by (auto simp: all_set_conv_all_nth)
  ultimately show ?thesis by blast
qed

lemma diag_matrix_shape:
  "length (diag_matrix p) = length p"
  "i < length p \<Longrightarrow> length (diag_matrix p ! i) = length p"
  "i < length p \<Longrightarrow> j < length p \<Longrightarrow> diag_matrix p ! i ! j = (if i = j then p ! i else 0)"
  by (simp_all add: diag_matrix_def)

lemma madd_zeros: "length p = n \<Longrightarrow> madd (smul c (zeros n n)) (diag_matrix p) = Inr (diag_matrix p)"
  by (auto simp: madd_def smul_def zeros_def diag_matrix_def map_replicate_const comp_def
      intro!: nth_equalityI)

text \<open>
  Claim C3.  For a fitted \<open>FullLaplace\<close>, with a curvature of shape
  \<open>n_params \<times> n_params\<close>, non-zero noise and temperature and a prior precision of an
  accepted length, \<open>posterior_precision\<close> has the entries
  \<open>H_factor * H[i][j] + (prior_precision_diag[i] if i = j else 0)\<close>, where
  \<open>H_factor = 1 / (sigma_noise\<^sup>2 * temperature)\<close>; where the curvature is the zero
  matrix it is \<open>diag(prior_precision_diag)\<close>.
\<close>
theorem full_posterior_precision_formula:
  assumes fitted: "H s = Some A"
    and shape: "length A = n_params s" "\<forall>r \<in> set A. length r = n_params s"
    and nonzero: "sigma_noise s \<noteq> 0" "temperature s \<noteq> 0"
    and prior: "length (prior_precision s) \<in> {1, n_layers s, n_params s}"
  shows "\<exists>p Pm. prior_precision_diag s = Inr p \<and> full_posterior_precision s = Inr Pm \<and>
           H_factor s = 1 / ((sigma_noise s)\<^sup>2 * temperature s) \<and>
           length Pm = n_params s \<and>
           (\<forall>i < n_params s. length (Pm ! i) = n_params s \<and>
              (\<forall>j < n_params s.
                 Pm ! i ! j = H_factor s * A ! i ! j + (if i = j then p ! i else 0))) \<and>
           (A = zeros (n_params s) (n_params s) \<longrightarrow> Pm = diag_matrix p)"
proof -
  let ?n = "n_params s"
  obtain p where p: "prior_precision_diag s = Inr p" "length p = ?n"
    using prior_precision_diag_valid[OF prior] by blast
  have fpp: "full_posterior_precision s = madd (smul (H_factor s) A) (diag_matrix p)"
    using fitted p by (simp add: full_posterior_precision_def check_fit_def bind_err_def)
  have sA: "length (smul (H_factor s) A) = ?n" "\<forall>r \<in> set (smul (H_factor s) A). length r = ?n"
    using shape by (auto simp: smul_def)
  have sD: "length (diag_matrix p) = ?n" "\<forall>r \<in> set (diag_matrix p). length r = ?n"
    using p by (auto simp: diag_matrix_def)
  obtain Pm where Pm: "madd (smul (H_factor s) A) (diag_matrix p) = Inr Pm" "length Pm = ?n"
    "\<forall>i < ?n. length (Pm ! i) = ?n \<and>
       (\<forall>j < ?n. Pm ! i ! j = smul (H_factor s) A ! i ! j + diag_matrix p ! i ! j)"
    using madd_same_shape[OF sA sD] by blast
  have entry: "smul (H_factor s) A ! i ! j = H_factor s * A ! i ! j" if "i < ?n" "j < ?n" for i j
    using that shape by (simp add: smul_def)
  have entries: "\<forall>i < ?n. length (Pm ! i) = ?n \<and>
       (\<forall>j < ?n. Pm ! i ! j = H_factor s * A ! i ! j + (if i = j then p ! i else 0))"
    using Pm(3) entry p(2) by (simp add: diag_matrix_shape)
  have zero: "Pm = diag_matrix p" if "A = zeros ?n ?n"
    using that Pm(1) madd_zeros[OF p(2), of "H_factor s"] by simp
  show ?thesis using p(1) fpp Pm(1,2) entries zero H_factor_eq by auto
qed


theorem full_posterior_precision_formula_witness:
  "full_posterior_precision full_la = Inr [[6, 0, 0], [0, 6, 0], [0, 0, 6]] \<and>
   H_factor full_la = 4 \<and>
   full_posterior_precision cls_la = Inr (diag_matrix [1, 1, 1])"
proof -
  have np: "n_params full_la = 3" "n_params cls_la = 3"
    by (simp_all add: n_params_def parameters_to_vector_def full_la_def cls_la_def)
  have hf: "H full_la = Some [[1, 0, 0], [0, 1, 0], [0, 0, 1]]" by (simp add: full_la_def)
  have sh: "length [[1, 0, 0], [0, 1, 0], [0, 0, 1 :: real]] = n_params full_la"
    "\<forall>r \<in> set [[1, 0, 0], [0, 1, 0], [0, 0, 1 :: real]]. length r = n_params full_la"
    unfolding np by simp_all
  have nz: "sigma_noise full_la \<noteq> 0" "temperature full_la \<noteq> 0" by (simp_all add: full_la_def)
  have pr: "length (prior_precision full_la) \<in> {1, n_layers full_la, n_params full_la}"
    by (simp add: full_la_def)
  from full_posterior_precision_formula[OF hf sh nz pr] obtain p Pm where
    f: "prior_precision_diag full_la = Inr p" "full_posterior_precision full_la = Inr Pm"
      "H_factor full_la = 1 / ((sigma_noise full_la)\<^sup>2 * temperature full_la)"
    by blast
  have h4: "H_factor full_la = 4" unfolding f(3) by (simp add: full_la_def power2_eq_square)
  have ev: "full_posterior_precision full_la = Inr [[6, 0, 0], [0, 6, 0], [0, 0, 6]]"
    by (simp add: full_posterior_precision_def full_la_def check_fit_def bind_err_def
        prior_precision_diag_def n_params_def parameters_to_vector_def madd_def smul_def
        diag_matrix_def H_factor_def upt_rec power2_eq_square)
  have hc: "H cls_la = Some [[0, 0, 0], [0, 0, 0], [0, 0, 0]]" by (simp add: cls_la_def)
  have shc: "length [[0, 0, 0], [0, 0, 0], [0, 0, 0 :: real]] = n_params cls_la"
    "\<forall>r \<in> set [[0, 0, 0], [0, 0, 0], [0, 0, 0 :: real]]. length r = n_params cls_la"
    unfolding np by simp_all
  have nzc: "sigma_noise cls_la \<noteq> 0" "temperature cls_la \<noteq> 0" by (simp_all add: cls_la_def)
  have prc: "length (prior_precision cls_la) \<in> {1, n_layers cls_la, n_params cls_la}"
    by (simp add: cls_la_def)
  from full_posterior_precision_formula[OF hc shc nzc prc] obtain q Qm where
    g: "prior_precision_diag cls_la = Inr q" "full_posterior_precision cls_la = Inr Qm"
      "[[0, 0, 0], [0, 0, 0], [0, 0, 0]] = zeros (n_params cls_la) (n_params cls_la)
         \<longrightarrow> Qm = diag_matrix q"
    by blast
  have "prior_precision_diag cls_la = Inr [1, 1, 1]"
    by (simp add: prior_precision_diag_def n_params_def parameters_to_vector_def cls_la_def
        eval_nat_numeral)
  then have q: "q = [1, 1, 1]" using g(1) by simp
  have z: "[[0, 0, 0], [0, 0, 0], [0, 0, 0]] = zeros (n_params cls_la) (n_params cls_la)"
    unfolding np by (simp add: zeros_def eval_nat_numeral)
  have "full_posterior_precision cls_la = Inr (diag_matrix [1, 1, 1])"
    using g(2,3) z q by simp
  then show ?thesis using ev h4 by simp
qed

subsection \<open>Log marginal likelihood\<close>

lemma dot_sum:
  "length u = n \<Longrightarrow> length v = n \<Longrightarrow> dot u v = Inr (\<Sum>i<n. u ! i * v ! i)"
  by (simp add: dot_def sum_list_sum_nth atLeast0LessThan case_prod_unfold)

lemma scatter_formula:
  assumes p: "prior_precision_diag s = Inr p" "length p = n_params s"
    and pm: "length (prior_mean s) \<in> {1, n_params s}"
    and th: "length (map_estimate s) = n_params s"
  shows "scatter s = Inr (\<Sum>i<n_params s.
           (map_estimate s ! i - (if length (prior_mean s) = 1 then hd (prior_mean s) else prior_mean s ! i))
           * p ! i
           * (map_estimate s ! i - (if length (prior_mean s) = 1 then hd (prior_mean s) else prior_mean s ! i)))"
proof -
  let ?n = "n_params s"
  let ?m = "\<lambda>i. if length (prior_mean s) = 1 then hd (prior_mean s) else prior_mean s ! i"
  let ?delta = "map (\<lambda>i. map_estimate s ! i - ?m i) [0..<?n]"
  have hd0: "hd (prior_mean s) = prior_mean s ! 0" if "length (prior_mean s) = 1"
    using that by (cases "prior_mean s") auto
  have delta: "broadcast2 (\<lambda>a b. a - b) (map_estimate s) (prior_mean s) = Inr ?delta"
  proof (cases "length (prior_mean s) = ?n")
    case True
    then show ?thesis using th hd0
      by (auto simp: broadcast2_def intro!: nth_equalityI)
  next
    case False
    then have "length (prior_mean s) = 1" using pm by auto
    then show ?thesis using th False
      by (auto simp: broadcast2_def intro!: nth_equalityI)
  qed
  let ?w = "map (\<lambda>i. (map_estimate s ! i - ?m i) * p ! i) [0..<?n]"
  have w: "broadcast2 (\<lambda>a b. a * b) ?delta p = Inr ?w"
    using p(2) by (auto simp: broadcast2_def intro!: nth_equalityI)
  have "dot ?w ?delta = Inr (\<Sum>i<?n. ?w ! i * ?delta ! i)"
    by (rule dot_sum) simp_all
  also have "(\<Sum>i<?n. ?w ! i * ?delta ! i)
      = (\<Sum>i<?n. (map_estimate s ! i - ?m i) * p ! i * (map_estimate s ! i - ?m i))"
    by (rule sum.cong) simp_all
  finally show ?thesis using delta w p(1) by (simp add: scatter_def bind_err_def)
qed

text \<open>
  Claim C2.  For a fitted parametric approximation with positive noise, non-zero
  temperature and a positive prior precision of an accepted length,
  \<open>log_marginal_likelihood()\<close> returns
  \<open>log_likelihood - 1/2 * (log_det_ratio + scatter)\<close>, where \<open>log_likelihood\<close> is
  \<open>- H_factor * loss - N * C * log(sigma * sqrt(2 * pi))\<close> for regression and
  \<open>- H_factor * loss\<close> otherwise, \<open>log_det_ratio\<close> is the log-determinant of the
  posterior precision \<open>Pm\<close> (as the subclass computes it) minus the log-determinant of
  \<open>diag(prior_precision_diag)\<close>, and \<open>scatter\<close> is the quadratic form of
  \<open>map_estimate - prior_mean\<close> with \<open>diag(prior_precision_diag)\<close>.
\<close>
theorem log_marginal_likelihood_formula:
  assumes fitted: "H s = Some h"
    and data: "n_data s = Some N" "n_outputs s = Some C"
    and noise: "0 < sigma_noise s" "temperature s \<noteq> 0"
    and prior: "length (prior_precision s) \<in> {1, n_layers s, n_params s}"
      "\<forall>a \<in> set (prior_precision s). 0 < a"
    and mean: "length (prior_mean s) \<in> {1, n_params s}" "length (map_estimate s) = n_params s"
    and post: "ldpp s = Inr (logdet Pm)"
  shows "\<exists>p. prior_precision_diag s = Inr p \<and>
     log_marginal_likelihood setter ldpp s None None =
       Return
        ((if likelihood s = ''regression''
          then - (1 / ((sigma_noise s)\<^sup>2 * temperature s)) * loss s
               - real N * real C * ln (sigma_noise s * sqrt (2 * pi))
          else - (1 / ((sigma_noise s)\<^sup>2 * temperature s)) * loss s)
         - 1 / 2 * ((logdet Pm - logdet (diag_matrix p))
             + (\<Sum>i<n_params s.
                  (map_estimate s ! i
                     - (if length (prior_mean s) = 1 then hd (prior_mean s) else prior_mean s ! i))
                  * p ! i
                  * (map_estimate s ! i
                     - (if length (prior_mean s) = 1 then hd (prior_mean s) else prior_mean s ! i)))))
        s"
proof -
  obtain p where p: "prior_precision_diag s = Inr p" "length p = n_params s"
      "set p \<subseteq> set (prior_precision s)"
    using prior_precision_diag_valid[OF prior(1)] by blast
  have pos: "\<forall>x \<in> set p. 0 < x" using p(3) prior(2) by auto
  have ldp: "log_det_prior_precision s = Inr (logdet (diag_matrix p))"
    using p(1) logdet_diag_matrix[OF pos] by (simp add: log_det_prior_precision_def bind_err_def)
  have ldr: "log_det_ratio ldpp s = Inr (logdet Pm - logdet (diag_matrix p))"
    using post ldp by (simp add: log_det_ratio_def bind_err_def)
  have ll: "log_likelihood s =
      Inr (if likelihood s = ''regression''
           then - (1 / ((sigma_noise s)\<^sup>2 * temperature s)) * loss s
                - real N * real C * ln (sigma_noise s * sqrt (2 * pi))
           else - (1 / ((sigma_noise s)\<^sup>2 * temperature s)) * loss s)"
    using fitted data by (simp add: log_likelihood_def check_fit_def bind_err_def H_factor_def)
  note sc = scatter_formula[OF p(1,2) mean]
  have "log_marginal_likelihood setter ldpp s None None = lift (log_marginal_likelihood' ldpp s) s"
    using fitted by (simp add: log_marginal_likelihood_def rbind_def lift_def check_fit_def)
  then show ?thesis
    using p(1) ll ldr sc
    by (simp add: log_marginal_likelihood'_def bind_err_def lift_def)
qed

theorem log_marginal_likelihood_formula_witness:
  "log_marginal_likelihood set_prior_precision full_log_det_posterior_precision full_la None None
     = Return (- 12 - 4 * ln (sqrt (2 * pi) / 2)
               - 1 / 2 * (logdet [[6, 0, 0], [0, 6, 0], [0, 0, 6]] - logdet (diag_matrix [2, 2, 2]) + 28))
         full_la"
proof -
  have h: "H full_la = Some [[1, 0, 0], [0, 1, 0], [0, 0, 1]]" by (simp add: full_la_def)
  have d: "n_data full_la = Some 4" "n_outputs full_la = Some 1" by (simp_all add: full_la_def)
  have nz: "0 < sigma_noise full_la" "temperature full_la \<noteq> 0" by (simp_all add: full_la_def)
  have np: "n_params full_la = 3"
    by (simp add: n_params_def parameters_to_vector_def full_la_def)
  have pr: "length (prior_precision full_la) \<in> {1, n_layers full_la, n_params full_la}"
    "\<forall>a \<in> set (prior_precision full_la). 0 < a"
    by (simp_all add: full_la_def)
  have mn: "length (prior_mean full_la) \<in> {1, n_params full_la}"
    "length (map_estimate full_la) = n_params full_la"
    unfolding np by (simp_all add: full_la_def)
  have fpp: "full_posterior_precision full_la = Inr [[6, 0, 0], [0, 6, 0], [0, 0, 6]]"
    by (simp add: full_posterior_precision_def full_la_def check_fit_def bind_err_def
        prior_precision_diag_def n_params_def parameters_to_vector_def madd_def smul_def
        diag_matrix_def H_factor_def upt_rec power2_eq_square)
  have post: "full_log_det_posterior_precision full_la
      = Inr (logdet [[6, 0, 0], [0, 6, 0], [0, 0, 6]])"
    using fpp by (simp add: full_log_det_posterior_precision_def bind_err_def)
  from log_marginal_likelihood_formula[where ldpp = full_log_det_posterior_precision
      and setter = set_prior_precision, OF h d nz pr mn post]
  obtain p where p: "prior_precision_diag full_la = Inr p"
    and lml: "log_marginal_likelihood set_prior_precision full_log_det_posterior_precision full_la None None =
       Return
        ((if likelihood full_la = ''regression''
          then - (1 / ((sigma_noise full_la)\<^sup>2 * temperature full_la)) * loss full_la
               - real 4 * real 1 * ln (sigma_noise full_la * sqrt (2 * pi))
          else - (1 / ((sigma_noise full_la)\<^sup>2 * temperature full_la)) * loss full_la)
         - 1 / 2 * ((logdet [[6, 0, 0], [0, 6, 0], [0, 0, 6]] - logdet (diag_matrix p))
             + (\<Sum>i<n_params full_la.
                  (map_estimate full_la ! i
                     - (if length (prior_mean full_la) = 1 then hd (prior_mean full_la) else prior_mean full_la ! i))
                  * p ! i
                  * (map_estimate full_la ! i
                     - (if length (prior_mean full_la) = 1 then hd (prior_mean full_la) else prior_mean full_la ! i)))))
        full_la"
    by blast
  have "prior_precision_diag full_la = Inr [2, 2, 2]"
    by (simp add: prior_precision_diag_def n_params_def parameters_to_vector_def full_la_def
        eval_nat_numeral)
  then have pv: "p = [2, 2, 2]" using p by simp
  have fields: "likelihood full_la = ''regression''" "sigma_noise full_la = 1 / 2"
    "temperature full_la = 1" "loss full_la = 3" "prior_mean full_la = [0]"
    "map_estimate full_la = [1, 2, 3]"
    by (simp_all add: full_la_def)
  have sum3: "(\<Sum>i<3. f i) = f 0 + f 1 + f (2::nat)" for f :: "nat \<Rightarrow> real"
    by (simp add: eval_nat_numeral)
  show ?thesis
    unfolding lml pv np fields sum3
    by (simp add: power2_eq_square)
qed


lemma full_log_det_is_logdet:
  "full_posterior_precision s = Inr Pm \<Longrightarrow> full_log_det_posterior_precision s = Inr (logdet Pm)"
  by (simp add: full_log_det_posterior_precision_def bind_err_def)

lemma diag_log_det_is_logdet:
  "diag_posterior_precision s = Inr q \<Longrightarrow> \<forall>x \<in> set q. 0 < x \<Longrightarrow>
   diag_log_det_posterior_precision s = Inr (logdet (diag_matrix q))"
  by (simp add: diag_log_det_posterior_precision_def bind_err_def logdet_diag_matrix)

subsection \<open>Fitting twice\<close>

lemma fit_loop_keeps_H:
  "fit_loop curv add N s bs = Return u s' \<Longrightarrow> H s \<noteq> None \<Longrightarrow> H s' \<noteq> None"
proof (induction bs arbitrary: s)
  case Nil
  then show ?case by simp
next
  case (Cons b bs)
  obtain X y where b: "b = (X, y)" by (cases b)
  from Cons.prems obtain l hb h h' where
    step: "curv X y N = Inr (l, hb)" "H s = Some h" "add h hb = Inr h'"
      "fit_loop curv add N (s\<lparr>loss := loss s + l, H := Some h'\<rparr>) bs = Return u s'"
    unfolding b by (auto simp: Let_def split: sum.splits option.splits prod.splits)
  show ?case by (rule Cons.IH[OF step(4)]) simp
qed

lemma fit_sets_H:
  assumes "fit init_H curv add out_dim s train = Return u s'"
  shows "H s' \<noteq> None"
proof -
  from assms obtain X y rest k s3 where
    "fit_loop curv add (dataset_len train) (s\<lparr>H := Some (init_H s), n_outputs := Some k\<rparr>) (batches train)
       = Return () s3" and s': "s' = s3\<lparr>n_data := Some (dataset_len train)\<rparr>"
    by (auto simp: fit_def Let_def split: if_splits list.splits sum.splits result.splits prod.splits)
  then have "H s3 \<noteq> None" by (auto dest: fit_loop_keeps_H)
  then show ?thesis using s' by simp
qed

lemma kron_fit_sets_H:
  assumes "kron_fit init_H curv add out_dim decompose s train = Return u s'"
  shows "H s' \<noteq> None"
  using assms by (auto simp: kron_fit_def split: result.splits option.splits sum.splits)

lemma madd_shape:
  assumes "madd A B = Inr C"
  shows "map length C = map length A"
proof -
  from assms have eq: "map length A = map length B"
    and C: "C = map (\<lambda>(r, r'). map (\<lambda>(a, b). a + b) (zip r r')) (zip A B)"
    by (auto simp: madd_def split: if_splits)
  have len: "length A = length B" using eq by (rule map_eq_imp_length_eq)
  have "length (A ! i) = length (B ! i)" if "i < length A" for i
    using that len nth_map[of i A length] nth_map[of i B length] eq by simp
  then show ?thesis using len C by (auto intro!: nth_equalityI)
qed

lemma fit_loop_model:
  "fit_loop curv add N s bs = Return u s' \<Longrightarrow> model_params s' = model_params s"
proof (induction bs arbitrary: s)
  case Nil
  then show ?case by simp
next
  case (Cons b bs)
  obtain X y where b: "b = (X, y)" by (cases b)
  from Cons.prems obtain l hb h h' where
    step: "fit_loop curv add N (s\<lparr>loss := loss s + l, H := Some h'\<rparr>) bs = Return u s'"
    unfolding b by (auto simp: Let_def split: sum.splits option.splits prod.splits)
  show ?case using Cons.IH[OF step] by simp
qed

lemma full_fit_loop_shape:
  "fit_loop curv madd N s bs = Return u s' \<Longrightarrow> H s = Some A \<Longrightarrow>
   \<exists>A'. H s' = Some A' \<and> map length A' = map length A"
proof (induction bs arbitrary: s A)
  case Nil
  then show ?case by simp
next
  case (Cons b bs)
  obtain X y where b: "b = (X, y)" by (cases b)
  from Cons.prems obtain l hb h' where
    step: "curv X y N = Inr (l, hb)" "madd A hb = Inr h'"
      "fit_loop curv madd N (s\<lparr>loss := loss s + l, H := Some h'\<rparr>) bs = Return u s'"
    unfolding b by (auto simp: Let_def split: sum.splits option.splits prod.splits)
  from Cons.IH[OF step(3)] obtain A' where "H s' = Some A'" "map length A' = map length h'"
    by auto
  then show ?case using madd_shape[OF step(2)] by simp
qed

lemma full_fit_shape:
  assumes "fit full_init_H curv madd out_dim s train = Return u s'"
  shows "\<exists>A. H s' = Some A \<and> length A = n_params s' \<and> (\<forall>r \<in> set A. length r = n_params s')"
proof -
  let ?s2 = "\<lambda>k. s\<lparr>H := Some (full_init_H s), n_outputs := Some k\<rparr>"
  from assms obtain k s3 where
    loop: "fit_loop curv madd (dataset_len train) (?s2 k) (batches train) = Return () s3"
    and s': "s' = s3\<lparr>n_data := Some (dataset_len train)\<rparr>"
    by (auto simp: fit_def Let_def split: if_splits list.splits sum.splits result.splits prod.splits)
  from full_fit_loop_shape[OF loop, of "full_init_H s"] obtain A where
    A: "H s3 = Some A" "map length A = map length (full_init_H s)" by auto
  have mp: "model_params s3 = model_params s"
    using fit_loop_model[OF loop] by simp
  have n: "n_params s' = n_params s" using mp s' by (simp add: n_params_def)
  have "map length A = replicate (n_params s) (n_params s)"
    using A(2) by (simp add: full_init_H_def zeros_def)
  then have "length A = n_params s" "\<forall>r \<in> set A. length r = n_params s"
    by (metis length_map length_replicate,
        metis (no_types, lifting) in_set_conv_nth length_map length_replicate nth_map nth_replicate)
  then show ?thesis using A(1) s' n by simp
qed

text \<open>
  Claim C4, as the code has it.  Once \<open>fit\<close> of a parametric approximation has
  returned (\<open>ParametricLaplace.fit\<close>, which \<open>FullLaplace\<close> and \<open>DiagLaplace\<close> inherit,
  or \<open>KronLaplace.fit\<close>), any further call of it raises \<open>ValueError('Already fit.')\<close>
  and leaves the object as it was.  \<open>FunctionalLaplace.fit\<close> has no such test.
\<close>
theorem parametric_fit_twice_rejected:
  assumes "fit init_H curv add out_dim s train = Return () s' \<or>
           kron_fit init_H curv add out_dim decompose s train = Return () s'"
  shows "fit init_H2 curv2 add2 out_dim2 s' train2 = Raise (ValueError ''Already fit.'') s' \<and>
         kron_fit init_H2 curv2 add2 out_dim2 decompose2 s' train2
           = Raise (ValueError ''Already fit.'') s'"
proof -
  have "H s' \<noteq> None" using assms fit_sets_H kron_fit_sets_H by blast
  then show ?thesis by (simp add: fit_def kron_fit_def)
qed

theorem parametric_fit_twice_rejected_witness:
  "fit full_init_H toy_curv madd toy_out_dim fresh_la toy_train = Return () full_la \<and>
   fit full_init_H toy_curv madd toy_out_dim full_la toy_train
     = Raise (ValueError ''Already fit.'') full_la \<and>
   kron_fit full_init_H toy_curv madd toy_out_dim Inr full_la toy_train
     = Raise (ValueError ''Already fit.'') full_la"
proof -
  have first: "fit full_init_H toy_curv madd toy_out_dim fresh_la toy_train = Return () full_la"
    by (rule full_la_fitted)
  then have "fit full_init_H toy_curv madd toy_out_dim fresh_la toy_train = Return () full_la \<or>
      kron_fit full_init_H toy_curv madd toy_out_dim Inr fresh_la toy_train = Return () full_la"
    by (rule disjI1)
  from parametric_fit_twice_rejected[OF this, of full_init_H toy_curv madd toy_out_dim toy_train Inr]
  show ?thesis using first by blast
qed

text \<open>
  Claim C4 as stated fails for \<open>FunctionalLaplace\<close>: on the example a second call of
  \<open>fit\<close> returns as the first did, and the loss of the first fit is still in the sum.
\<close>
theorem functional_fit_twice_returns:
  "is_Return (gp_fit toy_gp gp_la toy_loader) \<and>
   is_Return (gp_fit toy_gp (state_of (gp_fit toy_gp gp_la toy_loader)) toy_loader) \<and>
   loss (state_of (gp_fit toy_gp gp_la toy_loader)) = 1 \<and>
   loss (state_of (gp_fit toy_gp (state_of (gp_fit toy_gp gp_la toy_loader)) toy_loader)) = 2"
  by (simp add: gp_fit_def toy_gp_def gp_la_def toy_loader_def rbind_def lift_def Let_def
      init_K_MM_def init_Sigma_inv_def zeros_def broadcast2_def H_factor_def mu_batch_def madd_def msub_def bind_err_def
      kernel_batch_def gp_prior_def need_def prior_precision_diag_def n_params_def parameters_to_vector_def
      weighted_dot_def store_K_batch_def store_block_def set_block_def build_Sigma_inv_def
      build_L_inv_def diagonal_def diag_matrix_def is_Return_def state_of_def)

subsection \<open>Sampling predictions and the parameters of the model\<close>

lemma vector_to_parameters_return:
  "vector_to_parameters vec ps = Return () ps' \<Longrightarrow>
   map length ps' = map length ps \<and> concat ps' = take (length (concat ps)) vec"
proof (induction ps arbitrary: vec ps')
  case Nil
  then show ?case by simp
next
  case (Cons p ps)
  from Cons.prems obtain qs where
    len: "length p \<le> length vec"
    and rest: "vector_to_parameters (drop (length p) vec) ps = Return () qs"
    and ps': "ps' = take (length p) vec # qs"
    by (auto split: if_splits result.splits)
  from Cons.IH[OF rest] have
    "map length qs = map length ps" "concat qs = take (length (concat ps)) (drop (length p) vec)"
    by auto
  then show ?case using len ps' by (simp add: take_add min_def)
qed

lemma vector_to_parameters_enough:
  "length (concat ps) \<le> length vec \<Longrightarrow> \<exists>ps'. vector_to_parameters vec ps = Return () ps'"
proof (induction ps arbitrary: vec)
  case Nil
  then show ?case by simp
next
  case (Cons p ps)
  then have "length (concat ps) \<le> length (drop (length p) vec)" by simp
  from Cons.IH[OF this] obtain qs where
    "vector_to_parameters (drop (length p) vec) ps = Return () qs" by blast
  then show ?case using Cons.prems by simp
qed

lemma write_parameters_return:
  assumes "write_parameters vec s = Return () s'"
  shows "map length (model_params s') = map length (model_params s) \<and>
         parameters_to_vector (model_params s') = take (n_params s) vec \<and>
         map_estimate s' = map_estimate s \<and> likelihood s' = likelihood s"
proof -
  from assms obtain ps where v: "vector_to_parameters vec (model_params s) = Return () ps"
    and s': "s' = s\<lparr>model_params := ps\<rparr>"
    by (auto simp: write_parameters_def split: result.splits)
  from vector_to_parameters_return[OF v] show ?thesis
    using s' by (simp add: n_params_def parameters_to_vector_def)
qed

lemma n_params_shape:
  "map length (model_params s') = map length (model_params s) \<Longrightarrow> n_params s' = n_params s"
proof -
  assume "map length (model_params s') = map length (model_params s)"
  then have "sum_list (map length (model_params s')) = sum_list (map length (model_params s))"
    by simp
  then show ?thesis by (simp add: n_params_def parameters_to_vector_def length_concat)
qed

lemma nn_loop_frame:
  "nn_loop fwd X s samples = Return fs s' \<Longrightarrow>
   map length (model_params s') = map length (model_params s) \<and>
   map_estimate s' = map_estimate s \<and> likelihood s' = likelihood s"
proof (induction samples arbitrary: s fs)
  case Nil
  then show ?case by simp
next
  case (Cons smp rest)
  from Cons.prems obtain s1 f gs where
    w: "write_parameters smp s = Return () s1"
    and f: "fwd (model_params s1) X = Inr f"
    and r: "nn_loop fwd X s1 rest = Return gs s'"
    by (auto simp: rbind_def lift_def split: result.splits sum.splits)
  from write_parameters_return[OF w] Cons.IH[OF r] show ?case by simp
qed

text \<open>
  Claim C5, as the code has it.  When the sampler has returned and the network has been
  evaluated on every sample without an exception, \<open>_nn_predictive_samples\<close> leaves the
  parameters of the model equal to the MAP estimate, whether it then returns or raises
  while stacking the outputs.
\<close>
theorem map_restored_when_evaluations_return:
  assumes smp: "sample c s n = Return samples s1"
    and fits: "length (map_estimate s1) = n_params s1"
    and evals: "nn_loop (forward c) X s1 samples = Return fs s2"
  shows "parameters_to_vector (model_params (state_of (nn_predictive_samples c s X n)))
           = map_estimate s1 \<and>
         map_estimate (state_of (nn_predictive_samples c s X n)) = map_estimate s1"
proof -
  from nn_loop_frame[OF evals] have
    shape: "map length (model_params s2) = map length (model_params s1)"
    and est: "map_estimate s2 = map_estimate s1"
    by blast+
  have n2: "n_params s2 = n_params s1" using shape by (rule n_params_shape)
  have len: "length (map_estimate s2) = n_params s2" unfolding est n2 by (rule fits)
  have "length (concat (model_params s2)) = n_params s2"
    by (simp add: n_params_def parameters_to_vector_def)
  then have "length (concat (model_params s2)) \<le> length (map_estimate s2)"
    unfolding len by simp
  then obtain ps where "vector_to_parameters (map_estimate s2) (model_params s2) = Return () ps"
    using vector_to_parameters_enough by blast
  then have w: "write_parameters (map_estimate s2) s2 = Return () (s2\<lparr>model_params := ps\<rparr>)"
    by (simp add: write_parameters_def)
  let ?s3 = "s2\<lparr>model_params := ps\<rparr>"
  from write_parameters_return[OF w] have
    vec: "parameters_to_vector (model_params ?s3) = take (n_params s2) (map_estimate s2)"
    and est3: "map_estimate ?s3 = map_estimate s2" by blast+
  have "take (n_params s2) (map_estimate s2) = map_estimate s2"
    unfolding len[symmetric] by simp
  then have restored: "parameters_to_vector (model_params ?s3) = map_estimate s1"
    unfolding vec est by simp
  have run: "nn_predictive_samples c s X n =
      rbind (lift (stack fs) ?s3) (\<lambda>fs' s3.
        if likelihood s3 = ''classification''
        then Return (map (map softmax) fs') s3
        else Return fs' s3)"
    by (simp only: nn_predictive_samples_def smp evals w rbind_def result.case)
  have final: "state_of (nn_predictive_samples c s X n) = ?s3"
    unfolding run by (cases "stack fs") (simp_all add: rbind_def lift_def state_of_def)
  show ?thesis unfolding final using restored est3 est by simp
qed

theorem map_restored_when_evaluations_return_witness:
  "sample steady cls_la 1 = Return [[9, 9, 9]] cls_la \<and>
   length (map_estimate cls_la) = n_params cls_la \<and>
   nn_loop (forward steady) 0 cls_la [[9, 9, 9]]
     = Return [[[27, 0]]] (cls_la\<lparr>model_params := [[9, 9], [9]]\<rparr>) \<and>
   parameters_to_vector (model_params (state_of (nn_predictive_samples steady cls_la 0 1)))
     = [1, 2, 3] \<and>
   map_estimate (state_of (nn_predictive_samples steady cls_la 0 1)) = [1, 2, 3]"
proof -
  have a: "sample steady cls_la 1 = Return [[9, 9, 9]] cls_la"
    by (simp add: steady_def)
  have b: "length (map_estimate cls_la) = n_params cls_la"
    by (simp add: n_params_def parameters_to_vector_def cls_la_def)
  have c: "nn_loop (forward steady) 0 cls_la [[9, 9, 9]]
     = Return [[[27, 0]]] (cls_la\<lparr>model_params := [[9, 9], [9]]\<rparr>)"
    by (simp add: rbind_def lift_def write_parameters_def steady_def cls_la_def)
  have d: "map_estimate cls_la = [1, 2, 3]" by (simp add: cls_la_def)
  note t = map_restored_when_evaluations_return[OF a b c]
  from t have e:
    "parameters_to_vector (model_params (state_of (nn_predictive_samples steady cls_la 0 1)))
       = [1, 2, 3]"
    "map_estimate (state_of (nn_predictive_samples steady cls_la 0 1)) = [1, 2, 3]"
    unfolding d by blast+
  show ?thesis using a b c e by blast
qed

text \<open>
  Claim C5 as stated fails where the network raises: the exception leaves
  \<open>_nn_predictive_samples\<close> with the sample still written in the model.
\<close>
theorem map_not_restored_when_model_raises:
  "nn_predictive_samples crashing cls_la 0 1
     = Raise (RuntimeError ''CUDA out of memory'') (cls_la\<lparr>model_params := [[9, 9], [9]]\<rparr>) \<and>
   parameters_to_vector (model_params (state_of (nn_predictive_samples crashing cls_la 0 1)))
     \<noteq> map_estimate cls_la"
proof -
  have smp: "sample crashing cls_la 1 = Return [[9, 9, 9]] cls_la"
    by (simp add: steady_def crashing_def)
  have loop: "nn_loop (forward crashing) 0 cls_la [[9, 9, 9]]
      = Raise (RuntimeError ''CUDA out of memory'') (cls_la\<lparr>model_params := [[9, 9], [9]]\<rparr>)"
    by (simp add: rbind_def lift_def write_parameters_def steady_def crashing_def cls_la_def)
  have run: "nn_predictive_samples crashing cls_la 0 1
      = Raise (RuntimeError ''CUDA out of memory'') (cls_la\<lparr>model_params := [[9, 9], [9]]\<rparr>)"
    by (simp only: nn_predictive_samples_def smp loop rbind_def result.case)
  show ?thesis
    unfolding run by (simp add: state_of_def parameters_to_vector_def cls_la_def)
qed

subsection \<open>Sampling predictions and the link approximation\<close>

text \<open>
  Claim C6, as the code has it.  On a fitted parametric approximation a call with
  \<open>pred_type = 'nn'\<close> does not read \<open>link_approx\<close>: whenever
  \<open>_nn_predictive_samples\<close> returns, the call returns, with the result it has for
  \<open>link_approx = 'mc'\<close>; for classification that is the mean of the samples.
\<close>
theorem nn_prediction_ignores_link_approx:
  assumes fitted: "H s \<noteq> None"
    and runs: "is_Return (nn_predictive_samples c s x n)"
  shows "is_Return (call c s x ''nn'' link_approx n) \<and>
         call c s x ''nn'' link_approx n = call c s x ''nn'' ''mc'' n \<and>
         predictive c s x ''nn'' link_approx n = call c s x ''nn'' ''mc'' n \<and>
         (\<forall>fs s'. nn_predictive_samples c s x n = Return fs s' \<and> likelihood s' = ''classification''
            \<longrightarrow> call c s x ''nn'' link_approx n = Return (Probs (mean0 fs)) s')"
proof -
  from fitted obtain h where h: "H s = Some h" by auto
  from runs obtain fs s' where r: "nn_predictive_samples c s x n = Return fs s'"
    by (auto simp: is_Return_def split: result.splits)
  have eq: "call c s x ''nn'' l n =
      (if likelihood s' = ''regression'' then Return (MeanVar (mean0 fs) (var0 fs)) s'
       else Return (Probs (mean0 fs)) s')" for l
    using h r by (simp add: call_def rbind_def lift_def check_fit_def)
  show ?thesis using eq r by (simp add: is_Return_def predictive_def)
qed

theorem nn_prediction_ignores_link_approx_witness:
  "H cls_la \<noteq> None \<and> is_Return (nn_predictive_samples steady cls_la 0 1) \<and>
   is_Return (call steady cls_la 0 ''nn'' ''bridge'' 1) \<and>
   call steady cls_la 0 ''nn'' ''bridge'' 1 = call steady cls_la 0 ''nn'' ''mc'' 1 \<and>
   nn_predictive_samples steady cls_la 0 1 = Return [[softmax [27, 0]]] cls_la \<and>
   call steady cls_la 0 ''nn'' ''bridge'' 1 = Return (Probs (mean0 [[softmax [27, 0]]])) cls_la"
proof -
  have smp: "sample steady cls_la 1 = Return [[9, 9, 9]] cls_la"
    by (simp add: steady_def)
  have loop: "nn_loop (forward steady) 0 cls_la [[9, 9, 9]]
      = Return [[[27, 0]]] (cls_la\<lparr>model_params := [[9, 9], [9]]\<rparr>)"
    by (simp add: rbind_def lift_def write_parameters_def steady_def cls_la_def)
  have restore: "write_parameters (map_estimate (cls_la\<lparr>model_params := [[9, 9], [9]]\<rparr>))
      (cls_la\<lparr>model_params := [[9, 9], [9]]\<rparr>) = Return () cls_la"
    by (simp add: write_parameters_def cls_la_def)
  have lik: "likelihood cls_la = ''classification''" by (simp add: cls_la_def)
  have run: "nn_predictive_samples steady cls_la 0 1 = Return [[softmax [27, 0]]] cls_la"
    apply (simp only: nn_predictive_samples_def smp loop restore rbind_def result.case)
    apply (simp add: lift_def stack_def lik)
    done
  have fitted: "H cls_la \<noteq> None" by (simp add: cls_la_def)
  have ret: "is_Return (nn_predictive_samples steady cls_la 0 1)"
    unfolding run by (simp add: is_Return_def)
  note t = nn_prediction_ignores_link_approx[OF fitted ret, of "''bridge''"]
  from t have 1: "is_Return (call steady cls_la 0 ''nn'' ''bridge'' 1)"
    and 2: "call steady cls_la 0 ''nn'' ''bridge'' 1 = call steady cls_la 0 ''nn'' ''mc'' 1"
    by blast+
  from t run lik have 3:
    "call steady cls_la 0 ''nn'' ''bridge'' 1 = Return (Probs (mean0 [[softmax [27, 0]]])) cls_la"
    by blast
  show ?thesis using fitted ret 1 2 run 3 by blast
qed

text \<open>
  Claim C6 as stated fails for a link approximation other than \<open>'mc'\<close>: on the fitted
  classification example the call with \<open>pred_type = 'nn'\<close> and \<open>link_approx = 'probit'\<close>
  returns class probabilities.
\<close>
theorem nn_prediction_with_probit_link_returns:
  "likelihood cls_la = ''classification'' \<and> H cls_la \<noteq> None \<and>
   call steady cls_la 0 ''nn'' ''probit'' 1 = Return (Probs (mean0 [[softmax [27, 0]]])) cls_la"
proof -
  have smp: "sample steady cls_la 1 = Return [[9, 9, 9]] cls_la"
    by (simp add: steady_def)
  have loop: "nn_loop (forward steady) 0 cls_la [[9, 9, 9]]
      = Return [[[27, 0]]] (cls_la\<lparr>model_params := [[9, 9], [9]]\<rparr>)"
    by (simp add: rbind_def lift_def write_parameters_def steady_def cls_la_def)
  have restore: "write_parameters (map_estimate (cls_la\<lparr>model_params := [[9, 9], [9]]\<rparr>))
      (cls_la\<lparr>model_params := [[9, 9], [9]]\<rparr>) = Return () cls_la"
    by (simp add: write_parameters_def cls_la_def)
  have lik: "likelihood cls_la = ''classification''" by (simp add: cls_la_def)
  have run: "nn_predictive_samples steady cls_la 0 1 = Return [[softmax [27, 0]]] cls_la"
    apply (simp only: nn_predictive_samples_def smp loop restore rbind_def result.case)
    apply (simp add: lift_def stack_def lik)
    done
  have fit: "check_fit cls_la = Inr [[0, 0, 0], [0, 0, 0], [0, 0, 0]]"
    by (simp add: check_fit_def cls_la_def)
  have "call steady cls_la 0 ''nn'' ''probit'' 1 = Return (Probs (mean0 [[softmax [27, 0]]])) cls_la"
    unfolding call_def fit lift_def sum.case rbind_def result.case run
    by (simp add: lik)
  then show ?thesis using lik by (simp add: cls_la_def)
qed

subsection \<open>Grid search\<close>

lemma score_le_refl: "a \<noteq> NaN \<Longrightarrow> score_le a a"
  by (cases a) auto

lemma score_le_total: "a \<noteq> NaN \<Longrightarrow> b \<noteq> NaN \<Longrightarrow> score_le a b \<or> score_le b a"
  by (cases a; cases b) auto

lemma score_le_trans: "score_le a b \<Longrightarrow> score_le b c \<Longrightarrow> score_le a c"
  by (cases a; cases b; cases c) auto

lemma argmin_nan:
  "NaN \<in> set xs \<Longrightarrow>
   argmin xs < length xs \<and> xs ! argmin xs = NaN \<and> (\<forall>j < argmin xs. xs ! j \<noteq> NaN)"
proof (induction xs)
  case Nil
  then show ?case by simp
next
  case (Cons x xs)
  show ?case
  proof (cases "x = NaN")
    case True
    then show ?thesis by simp
  next
    case False
    then have mem: "NaN \<in> set xs" using Cons.prems by auto
    then have am: "argmin (x # xs) = Suc (argmin xs)" using False by simp
    from Cons.IH[OF mem] have ih: "argmin xs < length xs" "xs ! argmin xs = NaN"
      "\<forall>j < argmin xs. xs ! j \<noteq> NaN" by auto
    have "(x # xs) ! j \<noteq> NaN" if "j < Suc (argmin xs)" for j
      using that False ih(3) by (cases j) auto
    then show ?thesis unfolding am using ih by simp
  qed
qed

lemma argmin_least:
  "xs \<noteq> [] \<Longrightarrow> NaN \<notin> set xs \<Longrightarrow>
   argmin xs < length xs \<and> (\<forall>x \<in> set xs. score_le (xs ! argmin xs) x)"
proof (induction xs)
  case Nil
  then show ?case by simp
next
  case (Cons x xs)
  have xn: "x \<noteq> NaN" and xsn: "NaN \<notin> set xs" using Cons.prems(2) by auto
  show ?case
  proof (cases "list_all (score_le x) xs")
    case True
    then show ?thesis using xn xsn by (auto simp: list_all_iff score_le_refl)
  next
    case False
    then obtain y where y: "y \<in> set xs" "\<not> score_le x y" by (auto simp: list_all_iff)
    then have ne: "xs \<noteq> []" by auto
    from Cons.IH[OF ne xsn] have ih: "argmin xs < length xs"
      "\<forall>z \<in> set xs. score_le (xs ! argmin xs) z" by auto
    have "y \<noteq> NaN" using y(1) xsn by auto
    then have "score_le y x" using y(2) xn score_le_total by blast
    then have "score_le (xs ! argmin xs) x" using ih(2) y(1) score_le_trans by blast
    then show ?thesis using False xn ih by auto
  qed
qed

lemma argmin_first:
  "NaN \<notin> set xs \<Longrightarrow> i < argmin xs \<Longrightarrow> \<not> score_le (xs ! i) (xs ! argmin xs)"
proof (induction xs arbitrary: i)
  case Nil
  then show ?case by simp
next
  case (Cons x xs)
  have xn: "x \<noteq> NaN" and xsn: "NaN \<notin> set xs" using Cons.prems(1) by auto
  from Cons.prems(2) have nall: "\<not> list_all (score_le x) xs"
    using xn xsn by (auto split: if_splits)
  then obtain y where y: "y \<in> set xs" "\<not> score_le x y" by (auto simp: list_all_iff)
  then have ne: "xs \<noteq> []" by auto
  have am: "argmin (x # xs) = Suc (argmin xs)" using nall xn by simp
  show ?case
  proof (cases i)
    case 0
    have "score_le (xs ! argmin xs) y" using argmin_least[OF ne xsn] y(1) by blast
    then have "\<not> score_le x (xs ! argmin xs)" using y(2) score_le_trans by blast
    then show ?thesis unfolding 0 am by simp
  next
    case (Suc j)
    then have "j < argmin xs" using Cons.prems(2) am by simp
    from Cons.IH[OF xsn this] show ?thesis unfolding Suc am by simp
  qed
qed

lemma gridsearch_loop_runs:
  assumes caught: "\<forall>st e st'. evaluate st = Raise e st' \<longrightarrow> is_RuntimeError e"
  shows "\<exists>rs s'. gridsearch_loop evaluate s interval = Return rs s' \<and> map snd rs = interval \<and>
           (\<forall>i < length interval. \<exists>st. prior_precision st = [interval ! i] \<and>
               (case evaluate st of
                  Return l _ \<Rightarrow> fst (rs ! i) = l
                | Raise e _ \<Rightarrow> fst (rs ! i) = Infinity))"
proof (induction interval arbitrary: s)
  case Nil
  then show ?case by simp
next
  case (Cons p ps)
  let ?s1 = "s\<lparr>posterior_scale := None, prior_precision := [p]\<rparr>"
  have set: "set_prior_precision s (Tensor0 p) = Return () ?s1"
    by (simp add: set_prior_precision_def)
  obtain r s2 where ev: "(case evaluate ?s1 of
              Return r s2 \<Rightarrow> Return r s2
            | Raise e s2 \<Rightarrow> if is_RuntimeError e then Return Infinity s2 else Raise e s2)
         = Return r s2"
    and r: "case evaluate ?s1 of Return l _ \<Rightarrow> r = l | Raise e _ \<Rightarrow> r = Infinity"
    using caught by (cases "evaluate ?s1") auto
  from Cons.IH[of s2] obtain rs s' where
    rest: "gridsearch_loop evaluate s2 ps = Return rs s'" "map snd rs = ps"
      "\<forall>i < length ps. \<exists>st. prior_precision st = [ps ! i] \<and>
               (case evaluate st of
                  Return l _ \<Rightarrow> fst (rs ! i) = l
                | Raise e _ \<Rightarrow> fst (rs ! i) = Infinity)"
    by blast
  have run: "gridsearch_loop evaluate s (p # ps) = Return ((r, p) # rs) s'"
    using set ev rest(1) by (simp add: rbind_def)
  have "\<exists>st. prior_precision st = [(p # ps) ! i] \<and>
               (case evaluate st of
                  Return l _ \<Rightarrow> fst (((r, p) # rs) ! i) = l
                | Raise e _ \<Rightarrow> fst (((r, p) # rs) ! i) = Infinity)"
    if "i < length (p # ps)" for i
  proof (cases i)
    case 0
    have "prior_precision ?s1 = [p]" by simp
    moreover have "case evaluate ?s1 of
                  Return l _ \<Rightarrow> fst (((r, p) # rs) ! 0) = l
                | Raise e _ \<Rightarrow> fst (((r, p) # rs) ! 0) = Infinity"
      using r by (simp split: result.splits)
    ultimately show ?thesis unfolding 0 by (intro exI[of _ ?s1]) simp
  next
    case (Suc j)
    then have "j < length ps" using that by simp
    with rest(3) obtain st where "prior_precision st = [ps ! j]"
      "case evaluate st of Return l _ \<Rightarrow> fst (rs ! j) = l
                         | Raise e _ \<Rightarrow> fst (rs ! j) = Infinity"
      by blast
    then show ?thesis unfolding Suc by (intro exI[of _ st]) (simp split: result.splits)
  qed
  then show ?case using run rest(2) by auto
qed

text \<open>
  Claim C9, as the code has it.  If the interval is not empty and every exception of the
  validation is a \<open>RuntimeError\<close> (or of a subclass of it), \<open>_gridsearch\<close> returns: a
  candidate whose validation raised has the loss infinity, every other candidate has the
  loss its validation returned, and the result is the first candidate whose loss is NaN
  where there is one and the first candidate of least loss otherwise.
\<close>
theorem gridsearch_catches_runtime_errors:
  assumes nonempty: "interval \<noteq> []"
    and caught: "\<forall>st e st'. evaluate st = Raise e st' \<longrightarrow> is_RuntimeError e"
  shows "\<exists>rs s'. gridsearch_loop evaluate s interval = Return rs s' \<and> map snd rs = interval \<and>
           (\<forall>i < length interval. \<exists>st. prior_precision st = [interval ! i] \<and>
               (case evaluate st of
                  Return l _ \<Rightarrow> fst (rs ! i) = l
                | Raise e _ \<Rightarrow> fst (rs ! i) = Infinity)) \<and>
           argmin (map fst rs) < length interval \<and>
           gridsearch evaluate s interval = Return (interval ! argmin (map fst rs)) s' \<and>
           (NaN \<in> set (map fst rs) \<longrightarrow>
              fst (rs ! argmin (map fst rs)) = NaN \<and>
              (\<forall>i < argmin (map fst rs). fst (rs ! i) \<noteq> NaN)) \<and>
           (NaN \<notin> set (map fst rs) \<longrightarrow>
              (\<forall>i < length interval. score_le (fst (rs ! argmin (map fst rs))) (fst (rs ! i))) \<and>
              (\<forall>i < argmin (map fst rs).
                 \<not> score_le (fst (rs ! i)) (fst (rs ! argmin (map fst rs)))))"
proof -
  from gridsearch_loop_runs[OF caught, of s interval] obtain rs s' where
    run: "gridsearch_loop evaluate s interval = Return rs s'" "map snd rs = interval"
      "\<forall>i < length interval. \<exists>st. prior_precision st = [interval ! i] \<and>
               (case evaluate st of
                  Return l _ \<Rightarrow> fst (rs ! i) = l
                | Raise e _ \<Rightarrow> fst (rs ! i) = Infinity)"
    by blast
  let ?xs = "map fst rs"
  let ?k = "argmin ?xs"
  have len: "length rs = length interval" using run(2) by (metis length_map)
  then have ne: "?xs \<noteq> []" using nonempty by auto
  have k: "?k < length rs"
  proof (cases "NaN \<in> set ?xs")
    case True
    then show ?thesis using argmin_nan[of ?xs] by simp
  next
    case False
    then show ?thesis using argmin_least[OF ne] by simp
  qed
  have nth: "?xs ! i = fst (rs ! i)" if "i < length rs" for i using that by simp
  have nan: "fst (rs ! ?k) = NaN \<and> (\<forall>i < ?k. fst (rs ! i) \<noteq> NaN)" if "NaN \<in> set ?xs"
  proof -
    from argmin_nan[OF that] have a: "?xs ! ?k = NaN" "\<forall>j < ?k. ?xs ! j \<noteq> NaN" by auto
    have "fst (rs ! i) \<noteq> NaN" if "i < ?k" for i
      using a(2) that k nth[of i] by auto
    then show ?thesis using a(1) nth[OF k] by auto
  qed
  have least: "(\<forall>i < length interval. score_le (fst (rs ! ?k)) (fst (rs ! i))) \<and>
      (\<forall>i < ?k. \<not> score_le (fst (rs ! i)) (fst (rs ! ?k)))" if nn: "NaN \<notin> set ?xs"
  proof -
    from argmin_least[OF ne nn] have a: "\<forall>x \<in> set ?xs. score_le (?xs ! ?k) x" by auto
    have 1: "score_le (fst (rs ! ?k)) (fst (rs ! i))" if "i < length interval" for i
    proof -
      have "i < length rs" using that len by simp
      then have "?xs ! i \<in> set ?xs" by (metis length_map nth_mem)
      then show ?thesis using a nth[OF k] nth[OF \<open>i < length rs\<close>] by auto
    qed
    have 2: "\<not> score_le (fst (rs ! i)) (fst (rs ! ?k))" if "i < ?k" for i
      using argmin_first[OF nn that] that k nth[of i] nth[OF k] by auto
    show ?thesis using 1 2 by blast
  qed
  have res: "gridsearch evaluate s interval = Return (interval ! ?k) s'"
    using run(1,2) ne by (simp add: gridsearch_def rbind_def)
  have k': "?k < length interval" using k len by simp
  show ?thesis using run res k' nan least by blast
qed

theorem gridsearch_catches_runtime_errors_witness:
  "gridsearch toy_validation cls_la [10, 5, 3]
     = Return 3 (cls_la\<lparr>posterior_scale := None, prior_precision := [3]\<rparr>) \<and>
   gridsearch_loop toy_validation cls_la [10, 5, 3]
     = Return [(Infinity, 10), (Finite 9, 5), (Finite 1, 3)]
         (cls_la\<lparr>posterior_scale := None, prior_precision := [3]\<rparr>)"
proof -
  have ne: "[10, 5, 3 :: real] \<noteq> []" by simp
  have caught: "\<forall>st e st'. toy_validation st = Raise e st' \<longrightarrow> is_RuntimeError e"
    by (auto simp: toy_validation_def split: if_splits)
  have loop: "gridsearch_loop toy_validation cls_la [10, 5, 3]
     = Return [(Infinity, 10), (Finite 9, 5), (Finite 1, 3)]
         (cls_la\<lparr>posterior_scale := None, prior_precision := [3]\<rparr>)"
    by (simp add: rbind_def set_prior_precision_def toy_validation_def cls_la_def power2_eq_square)
  from gridsearch_catches_runtime_errors[OF ne caught, of cls_la] obtain rs s' where
    r: "gridsearch_loop toy_validation cls_la [10, 5, 3] = Return rs s'"
      "gridsearch toy_validation cls_la [10, 5, 3] = Return ([10, 5, 3] ! argmin (map fst rs)) s'"
    by blast
  from r(1) loop have rs: "rs = [(Infinity, 10), (Finite 9, 5), (Finite 1, 3)]"
    and s': "s' = cls_la\<lparr>posterior_scale := None, prior_precision := [3]\<rparr>" by simp_all
  have "argmin (map fst rs) = 2" unfolding rs by simp
  then show ?thesis using r(2) loop s' by simp
qed

lemma gridsearch_returns_first_nan_candidate:
  "gridsearch_loop nan_validation cls_la [3, 5, 2]
     = Return [(Finite 1, 3), (NaN, 5), (Finite 0, 2)]
         (cls_la\<lparr>posterior_scale := None, prior_precision := [2]\<rparr>) \<and>
   gridsearch nan_validation cls_la [3, 5, 2]
     = Return 5 (cls_la\<lparr>posterior_scale := None, prior_precision := [2]\<rparr>)"
  by (simp add: gridsearch_def rbind_def set_prior_precision_def nan_validation_def cls_la_def
      power2_eq_square)

text \<open>
  Claim C9 as stated fails for a numerical failure that is not a \<open>RuntimeError\<close>: the
  \<open>ValueError\<close> with which \<open>torch.distributions\<close> rejects the parameters of the
  first candidate leaves \<open>_gridsearch\<close>.
\<close>
theorem gridsearch_propagates_value_error:
  "gridsearch failing_validation cls_la [10, 5, 3]
     = Raise (ValueError ''Expected parameter concentration to satisfy the constraint GreaterThan'')
         (cls_la\<lparr>posterior_scale := None, prior_precision := [10]\<rparr>)"
  by (simp add: gridsearch_def rbind_def set_prior_precision_def failing_validation_def)

end
